theory Spec2Isabelle
  imports Complex_Main "HOL-Library.Sublist"
begin

section \<open>Python values shared by the models\<close>

text \<open>
  The dictionaries that travel between the scanners, the analyzers and the finding store
  are read by a handful of string keys. A dictionary is a map from key to value; the
  values that the modelled code reads are strings. \<open>d k = None\<close> is an absent key.
\<close>

type_synonym pydict = "string \<rightharpoonup> string"

text \<open>Python truthiness of \<open>d.get(k)\<close>: absent and the empty string are falsy.\<close>

definition truthy :: "string option \<Rightarrow> bool" where
  "truthy v = (case v of None \<Rightarrow> False | Some s \<Rightarrow> s \<noteq> [])"

text \<open>\<open>v or ''\<close>.\<close>

definition or_empty :: "string option \<Rightarrow> string" where
  "or_empty v = (case v of None \<Rightarrow> [] | Some s \<Rightarrow> s)"

text \<open>\<open>d.get(k1) or d.get(k2) or ''\<close>.\<close>

definition get_or :: "pydict \<Rightarrow> string \<Rightarrow> string \<Rightarrow> string" where
  "get_or d k1 k2 = (if truthy (d k1) then or_empty (d k1) else or_empty (d k2))"

text \<open>\<open>sep.join(parts)\<close>.\<close>

fun join :: "string \<Rightarrow> string list \<Rightarrow> string" where
  "join sep [] = []"
| "join sep [p] = p"
| "join sep (p # q # ps) = p @ sep @ join sep (q # ps)"

section \<open>Finding store: \<open>models/insights_finding.py\<close>\<close>

datatype status = New | Acknowledged | In_progress | Resolved | Wont_fix | False_positive

text \<open>
  A row of \<open>insights.finding\<close>. Dates are points of a clock, \<open>None\<close> is an unset
  column. \<open>details_json\<close> holds the dictionary that the JSON text denotes
  (\<open>json.dumps\<close> followed by \<open>json.loads\<close> gives the dictionary back).
\<close>

record finding =
  fingerprint :: string
  scan_id :: "nat option"
  first_seen_scan_id :: "nat option"
  first_seen_date :: "nat option"
  last_seen_date :: "nat option"
  occurrence_count :: int
  status :: status
  severity :: "string option"
  category :: "string option"
  finding_type :: "string option"
  title :: "string option"
  description :: "string option"
  priority :: "string option"
  effort :: "string option"
  impact :: "string option"
  details_json :: "pydict option"

text \<open>The \<open>vals\<close> dictionary handed to \<open>find_or_create\<close>, by the keys its callers set.\<close>

record vals =
  v_fingerprint :: "string option"
  v_severity :: "string option"
  v_category :: "string option"
  v_finding_type :: "string option"
  v_title :: "string option"
  v_description :: "string option"
  v_priority :: "string option"
  v_effort :: "string option"
  v_impact :: "string option"
  v_details_json :: "pydict option"

text \<open>
  \<open>_generate_fingerprint\<close>. The digest \<open>hashlib.sha256(...).hexdigest()[:32]\<close> is the
  parameter \<open>H\<close>.
\<close>

definition generate_fingerprint ::
  "(string \<Rightarrow> string) \<Rightarrow> string option \<Rightarrow> string option \<Rightarrow> string option \<Rightarrow>
   pydict option \<Rightarrow> string option \<Rightarrow> string" where
  "generate_fingerprint H sev cat ftype details ttl =
     (let parts = [or_empty sev, or_empty cat, or_empty ftype];
          parts' =
            (if sev = Some ''recommendation'' \<and> truthy ttl then parts @ [or_empty ttl]
             else case details of
               None \<Rightarrow> parts
             | Some d \<Rightarrow>
                 (let file_path = get_or d ''file'' ''relative_path'';
                      model_name = get_or d ''model'' ''model_name'';
                      xml_id = get_or d ''xml_id'' ''view_xml_id''
                  in parts
                     @ (if file_path \<noteq> [] then [file_path] else [])
                     @ (if model_name \<noteq> [] then [model_name] else [])
                     @ (if xml_id \<noteq> [] then [xml_id] else [])))
      in H (join ''|'' parts'))"

text \<open>The fingerprint that \<open>find_or_create\<close> looks up: the given one, or a generated one.\<close>

definition candidate_fingerprint :: "(string \<Rightarrow> string) \<Rightarrow> vals \<Rightarrow> string" where
  "candidate_fingerprint H v =
     (if truthy (v_fingerprint v) then or_empty (v_fingerprint v)
      else generate_fingerprint H (v_severity v) (v_category v) (v_finding_type v)
             (v_details_json v) (v_title v))"

text \<open>
  \<open>self.search([('fingerprint', '=', fp)], limit=1)\<close>: the position of the first row
  of the table with that fingerprint.
\<close>

fun search_fingerprint :: "string \<Rightarrow> finding list \<Rightarrow> nat option" where
  "search_fingerprint fp [] = None"
| "search_fingerprint fp (f # fs) =
     (if fingerprint f = fp then Some 0
      else map_option Suc (search_fingerprint fp fs))"

text \<open>The row that \<open>existing.write(update_vals)\<close> leaves.\<close>

definition update_existing :: "nat \<Rightarrow> nat \<Rightarrow> vals \<Rightarrow> finding \<Rightarrow> finding" where
  "update_existing now sid v existing =
     (let u = existing\<lparr>scan_id := Some sid, last_seen_date := Some now,
                       occurrence_count := occurrence_count existing + 1\<rparr>
      in if status existing = New then
           (let u1 = (if truthy (v_severity v) then u\<lparr>severity := v_severity v\<rparr> else u)
            in if truthy (v_description v) then u1\<lparr>description := v_description v\<rparr> else u1)
         else u)"

text \<open>The row that \<open>self.create(vals)\<close> inserts.\<close>

definition create_new :: "nat \<Rightarrow> nat \<Rightarrow> string \<Rightarrow> vals \<Rightarrow> finding" where
  "create_new now sid fp v =
     \<lparr>fingerprint = fp, scan_id = Some sid, first_seen_scan_id = Some sid,
      first_seen_date = Some now, last_seen_date = Some now, occurrence_count = 1,
      status = New, severity = v_severity v, category = v_category v,
      finding_type = v_finding_type v, title = v_title v, description = v_description v,
      priority = v_priority v, effort = v_effort v, impact = v_impact v,
      details_json = v_details_json v\<rparr>"

text \<open>
  \<open>find_or_create(scan_id, vals)\<close> on the table \<open>store\<close>, at clock value \<open>now\<close>:
  the new table and the row returned.
\<close>

definition find_or_create ::
  "(string \<Rightarrow> string) \<Rightarrow> nat \<Rightarrow> nat \<Rightarrow> vals \<Rightarrow> finding list \<Rightarrow> finding list \<times> finding" where
  "find_or_create H now sid v store =
     (let fp = candidate_fingerprint H v in
      case search_fingerprint fp store of
        Some i \<Rightarrow>
          (let r = update_existing now sid v (store ! i) in (store[i := r], r))
      | None \<Rightarrow>
          (let r = create_new now sid fp v in (store @ [r], r)))"

section \<open>Persisting a report: \<open>InsightsScan._create_findings\<close>\<close>

text \<open>
  An entry of \<open>report['critical_issues']\<close> or \<open>report['warnings']\<close>, as
  \<open>_categorize_issues\<close> builds it, and an entry of \<open>report['recommendations']\<close>.
\<close>

record issue =
  i_category :: string
  i_type :: string
  i_details :: pydict

record recommendation =
  r_priority :: string
  r_category :: string
  r_type :: string
  r_title :: string
  r_description :: string
  r_effort :: string
  r_impact :: string

definition issue_vals :: "string \<Rightarrow> issue \<Rightarrow> vals" where
  "issue_vals sev i =
     \<lparr>v_fingerprint = None, v_severity = Some sev, v_category = Some (i_category i),
      v_finding_type = Some (i_type i), v_title = None, v_description = None,
      v_priority = None, v_effort = None, v_impact = None,
      v_details_json = Some (i_details i)\<rparr>"

definition recommendation_vals :: "recommendation \<Rightarrow> vals" where
  "recommendation_vals r =
     \<lparr>v_fingerprint = None, v_severity = Some ''recommendation'',
      v_category = Some (r_category r), v_finding_type = Some (r_type r),
      v_title = Some (r_title r), v_description = Some (r_description r),
      v_priority = Some (r_priority r), v_effort = Some (r_effort r),
      v_impact = Some (r_impact r), v_details_json = None\<rparr>"

text \<open>
  The three loops of \<open>_create_findings\<close>: each candidate goes through
  \<open>find_or_create\<close>; a returned row with \<open>occurrence_count == 1\<close> counts as new, any
  other as recurring. The state is the table with the two counters.
\<close>

fun upsert_all ::
  "(string \<Rightarrow> string) \<Rightarrow> nat \<Rightarrow> nat \<Rightarrow> vals list \<Rightarrow> finding list \<times> nat \<times> nat \<Rightarrow>
   finding list \<times> nat \<times> nat" where
  "upsert_all H now sid [] st = st"
| "upsert_all H now sid (v # vs) (store, new_count, recurring_count) =
     (let (store', r) = find_or_create H now sid v store
      in upsert_all H now sid vs
           (if occurrence_count r = 1 then (store', new_count + 1, recurring_count)
            else (store', new_count, recurring_count + 1)))"

definition create_findings ::
  "(string \<Rightarrow> string) \<Rightarrow> nat \<Rightarrow> nat \<Rightarrow> issue list \<Rightarrow> issue list \<Rightarrow> recommendation list \<Rightarrow>
   finding list \<Rightarrow> finding list \<times> nat \<times> nat" where
  "create_findings H now sid critical_issues warnings recommendations store =
     upsert_all H now sid
       (map (issue_vals ''critical'') critical_issues
        @ map (issue_vals ''warning'') warnings
        @ map recommendation_vals recommendations)
       (store, 0, 0)"

section \<open>Duplicate analyzer summary: \<open>DuplicateAnalyzer._generate_summary\<close>\<close>

datatype py_error = KeyError string

text \<open>\<open>d.get(k, default)\<close>.\<close>

definition get_default :: "pydict \<Rightarrow> string \<Rightarrow> string \<Rightarrow> string" where
  "get_default d k dflt = (case d k of None \<Rightarrow> dflt | Some v \<Rightarrow> v)"

text \<open>\<open>self.findings\<close> of the duplicate analyzer, without its \<open>summary\<close> entry.\<close>

record dup_findings =
  duplicate_models :: "pydict list"
  duplicate_functions :: "pydict list"
  duplicate_methods :: "pydict list"
  duplicate_css_classes :: "pydict list"
  duplicate_views :: "pydict list"
  similar_models :: "pydict list"
  renamed_components :: "pydict list"

record dup_summary =
  s_duplicate_models :: nat
  s_duplicate_functions :: nat
  s_duplicate_methods :: nat
  s_duplicate_css_classes :: nat
  s_duplicate_views :: nat
  s_similar_models :: nat
  s_renamed_components :: nat
  s_total_issues :: nat
  s_severity_counts :: "string \<rightharpoonup> nat"

text \<open>
  The counting loop \<open>severity_counts[severity] += 1\<close>: a severity that is not a key of
  the dictionary raises \<open>KeyError\<close>.
\<close>

fun count_severities :: "(string \<rightharpoonup> nat) \<Rightarrow> pydict list \<Rightarrow> py_error + (string \<rightharpoonup> nat)" where
  "count_severities counts [] = Inr counts"
| "count_severities counts (item # items) =
     (let sev = get_default item ''severity'' ''info'' in
      case counts sev of
        None \<Rightarrow> Inl (KeyError sev)
      | Some n \<Rightarrow> count_severities (counts(sev \<mapsto> n + 1)) items)"

definition zero_counts :: "string \<rightharpoonup> nat" where
  "zero_counts = [''error'' \<mapsto> 0, ''warning'' \<mapsto> 0, ''info'' \<mapsto> 0]"

text \<open>The seven categories whose severities are counted, in the order of the loop.\<close>

definition dup_counted :: "dup_findings \<Rightarrow> pydict list" where
  "dup_counted f =
     duplicate_models f @ duplicate_functions f @ duplicate_methods f
     @ duplicate_css_classes f @ duplicate_views f @ similar_models f
     @ renamed_components f"

definition dup_generate_summary :: "dup_findings \<Rightarrow> py_error + dup_summary" where
  "dup_generate_summary f =
     (case count_severities zero_counts (dup_counted f) of
        Inl e \<Rightarrow> Inl e
      | Inr counts \<Rightarrow>
          Inr \<lparr>s_duplicate_models = length (duplicate_models f),
               s_duplicate_functions = length (duplicate_functions f),
               s_duplicate_methods = length (duplicate_methods f),
               s_duplicate_css_classes = length (duplicate_css_classes f),
               s_duplicate_views = length (duplicate_views f),
               s_similar_models = length (similar_models f),
               s_renamed_components = length (renamed_components f),
               s_total_issues =
                 sum_list [length (duplicate_models f), length (duplicate_functions f),
                           length (duplicate_methods f), length (duplicate_css_classes f),
                           length (duplicate_views f), length (renamed_components f)],
               s_severity_counts = counts\<rparr>)"

section \<open>Rename detection: \<open>DuplicateAnalyzer._check_renames\<close>\<close>

text \<open>
  \<open>RENAME_PATTERNS\<close> holds regular expressions of four shapes, each used with
  \<open>re.IGNORECASE\<close>: a literal at the end (\<open>_old$\<close>), the version suffix \<open>_v\d+$\<close>, a
  literal at the start (\<open>^old_\<close>) and a literal anywhere (\<open>Original\<close>). A pattern is
  modelled by its shape; \<open>re.search\<close> and \<open>re.sub\<close> are defined for each shape.
\<close>

datatype rename_pattern =
  Suffix string
| VersionSuffix
| Prefix string
| Anywhere string

definition RENAME_PATTERNS :: "rename_pattern list" where
  "RENAME_PATTERNS =
     [Suffix ''_old'', Suffix ''_backup'', Suffix ''_deprecated'', Suffix ''_legacy'',
      VersionSuffix, Prefix ''old_'', Prefix ''backup_'', Prefix ''deprecated_'',
      Suffix ''_copy'', Suffix ''_temp'', Suffix ''_test'', Anywhere ''Original'',
      Anywhere ''Copy'']"

text \<open>The text of the pattern, as the finding records it in \<open>pattern_matched\<close>.\<close>

fun pattern_text :: "rename_pattern \<Rightarrow> string" where
  "pattern_text (Suffix t) = t @ ''$''"
| "pattern_text VersionSuffix = ''_v'' @ [CHR 0x5C] @ ''d+$''"
| "pattern_text (Prefix t) = ''^'' @ t"
| "pattern_text (Anywhere t) = t"

text \<open>Case folding of \<open>re.IGNORECASE\<close> on the letters of the patterns.\<close>

definition lower_char :: "char \<Rightarrow> char" where
  "lower_char c =
     (case map_of (zip ''ABCDEFGHIJKLMNOPQRSTUVWXYZ'' ''abcdefghijklmnopqrstuvwxyz'') c of
        None \<Rightarrow> c | Some l \<Rightarrow> l)"

definition same_ci :: "string \<Rightarrow> string \<Rightarrow> bool" where
  "same_ci a b = (map lower_char a = map lower_char b)"

definition is_digit :: "char \<Rightarrow> bool" where
  "is_digit c = (c \<in> set ''0123456789'')"

text \<open>
  A literal at the very end of the name. \<open>$\<close> also matches before a newline that ends
  the name; \<open>split_end\<close> gives the part of the name that the pattern has to end and the
  part that stays behind it.
\<close>

definition ends_ci :: "string \<Rightarrow> string \<Rightarrow> bool" where
  "ends_ci t s = (length t \<le> length s \<and> same_ci (drop (length s - length t) s) t)"

definition version_end :: "string \<Rightarrow> bool" where
  "version_end s =
     (takeWhile is_digit (rev s) \<noteq> []
      \<and> ends_ci ''_v'' (rev (dropWhile is_digit (rev s))))"

definition strip_version :: "string \<Rightarrow> string" where
  "strip_version s =
     (let r = rev (dropWhile is_digit (rev s)) in take (length r - 2) r)"

definition before_newline :: "string \<Rightarrow> string option" where
  "before_newline s =
     (if s \<noteq> [] \<and> last s = CHR 0x0A then Some (butlast s) else None)"

text \<open>\<open>s.lower().startswith(t.lower())\<close>, for \<open>^t\<close>.\<close>

definition starts_ci :: "string \<Rightarrow> string \<Rightarrow> bool" where
  "starts_ci t s = (length t \<le> length s \<and> same_ci (take (length t) s) t)"

text \<open>
  All occurrences of a literal, from the left and without overlap, as \<open>re.sub\<close>
  replaces them; the literal is not empty.
\<close>

fun remove_all_ci :: "string \<Rightarrow> string \<Rightarrow> string" where
  "remove_all_ci t [] = []"
| "remove_all_ci t (c # cs) =
     (if t \<noteq> [] \<and> starts_ci t (c # cs)
      then remove_all_ci t (drop (length t) (c # cs))
      else c # remove_all_ci t cs)"

fun contains_ci :: "string \<Rightarrow> string \<Rightarrow> bool" where
  "contains_ci t [] = (t = [])"
| "contains_ci t (c # cs) = (starts_ci t (c # cs) \<or> contains_ci t cs)"

text \<open>\<open>re.search(pattern, name, re.IGNORECASE)\<close> finds a match.\<close>

fun re_search :: "rename_pattern \<Rightarrow> string \<Rightarrow> bool" where
  "re_search (Suffix t) name =
     (ends_ci t name
      \<or> (case before_newline name of None \<Rightarrow> False | Some b \<Rightarrow> ends_ci t b))"
| "re_search VersionSuffix name =
     (version_end name
      \<or> (case before_newline name of None \<Rightarrow> False | Some b \<Rightarrow> version_end b))"
| "re_search (Prefix t) name = starts_ci t name"
| "re_search (Anywhere t) name = contains_ci t name"

text \<open>\<open>re.sub(pattern, '', name, flags=re.IGNORECASE)\<close>.\<close>

fun re_sub :: "rename_pattern \<Rightarrow> string \<Rightarrow> string" where
  "re_sub (Suffix t) name =
     (if ends_ci t name then take (length name - length t) name
      else (case before_newline name of
              None \<Rightarrow> name
            | Some b \<Rightarrow>
                if ends_ci t b then take (length b - length t) b @ [CHR 0x0A] else name))"
| "re_sub VersionSuffix name =
     (if version_end name then strip_version name
      else (case before_newline name of
              None \<Rightarrow> name
            | Some b \<Rightarrow> if version_end b then strip_version b @ [CHR 0x0A] else name))"
| "re_sub (Prefix t) name = (if starts_ci t name then drop (length t) name else name)"
| "re_sub (Anywhere t) name = remove_all_ci t name"

record rename_finding =
  rn_type :: string
  rn_renamed :: string
  rn_original :: "string option"
  rn_pattern_matched :: string
  rn_severity :: string
  rn_recommendation :: string

text \<open>
  The body of the loop over the patterns for one name: the first pattern that matches
  decides (\<open>break\<close>), and it yields a finding only if the stripped name differs.
\<close>

fun check_name :: "rename_pattern list \<Rightarrow> string list \<Rightarrow> string \<Rightarrow> string \<Rightarrow> rename_finding list" where
  "check_name [] names component_type name = []"
| "check_name (pattern # patterns) names component_type name =
     (if re_search pattern name then
        (let base_name = re_sub pattern name in
         if base_name \<in> set names \<and> base_name \<noteq> name then
           [\<lparr>rn_type = component_type, rn_renamed = name, rn_original = Some base_name,
             rn_pattern_matched = pattern_text pattern, rn_severity = ''warning'',
             rn_recommendation =
               ''Consider removing '' @ [CHR 0x27] @ name @ [CHR 0x27]
               @ '' if it'' @ [CHR 0x27] @ ''s no longer needed''\<rparr>]
         else if base_name \<noteq> name then
           [\<lparr>rn_type = component_type, rn_renamed = name, rn_original = None,
             rn_pattern_matched = pattern_text pattern, rn_severity = ''info'',
             rn_recommendation =
               [CHR 0x27] @ name @ [CHR 0x27]
               @ '' follows a rename pattern but no original found - verify if needed''\<rparr>]
         else [])
      else check_name patterns names component_type name)"

text \<open>\<open>_check_renames(names, component_type)\<close>: the findings it appends, in order.\<close>

definition check_renames :: "string list \<Rightarrow> string \<Rightarrow> rename_finding list" where
  "check_renames names component_type =
     concat (map (\<lambda>name. if name = [] then []
                          else check_name RENAME_PATTERNS names component_type name) names)"

text \<open>The two findings that the detector writes for a name \<open>n_old\<close>.\<close>

definition old_with_original :: "string \<Rightarrow> string \<Rightarrow> rename_finding" where
  "old_with_original component_type n =
     \<lparr>rn_type = component_type, rn_renamed = n @ ''_old'', rn_original = Some n,
      rn_pattern_matched = ''_old$'', rn_severity = ''warning'',
      rn_recommendation =
        ''Consider removing '' @ [CHR 0x27] @ n @ ''_old'' @ [CHR 0x27]
        @ '' if it'' @ [CHR 0x27] @ ''s no longer needed''\<rparr>"

definition old_without_original :: "string \<Rightarrow> string \<Rightarrow> rename_finding" where
  "old_without_original component_type n =
     \<lparr>rn_type = component_type, rn_renamed = n @ ''_old'', rn_original = None,
      rn_pattern_matched = ''_old$'', rn_severity = ''info'',
      rn_recommendation =
        [CHR 0x27] @ n @ ''_old'' @ [CHR 0x27]
        @ '' follows a rename pattern but no original found - verify if needed''\<rparr>"

section \<open>Orphan and external-path summaries\<close>

record orphan_findings =
  orphaned_python_files :: "pydict list"
  orphaned_models :: "pydict list"
  orphaned_views :: "pydict list"
  orphaned_actions :: "pydict list"
  orphaned_menus :: "pydict list"
  dangling_field_refs :: "pydict list"
  dangling_model_refs :: "pydict list"
  orphaned_assets :: "pydict list"
  unused_css_classes :: "pydict list"
  missing_dependencies :: "pydict list"

definition orphan_counted :: "orphan_findings \<Rightarrow> pydict list" where
  "orphan_counted f =
     orphaned_python_files f @ orphaned_models f @ orphaned_views f @ orphaned_actions f
     @ orphaned_menus f @ dangling_field_refs f @ dangling_model_refs f
     @ orphaned_assets f @ unused_css_classes f @ missing_dependencies f"

text \<open>
  \<open>OrphanAnalyzer._generate_summary\<close>, the entry \<open>total_issues\<close>: one per item of
  every category, counted in the loop that also counts the severities.
\<close>

definition orphan_total_issues :: "orphan_findings \<Rightarrow> py_error + nat" where
  "orphan_total_issues f =
     (case count_severities zero_counts (orphan_counted f) of
        Inl e \<Rightarrow> Inl e
      | Inr counts \<Rightarrow> Inr (length (orphan_counted f)))"

record external_path_findings =
  hardcoded_external_paths :: "pydict list"
  relative_path_escapes :: "pydict list"
  suspicious_file_operations :: "pydict list"
  external_imports :: "pydict list"

record commented_code_findings =
  cc_python :: "pydict list"
  cc_javascript :: "pydict list"
  cc_xml :: "pydict list"

section \<open>Orchestrator: \<open>EcosystemAnalyzer\<close>\<close>

text \<open>
  What the report is computed from: the two scanners' error lists, by their lengths, and
  the findings of the four analyzers that feed the score.
\<close>

record analysis =
  python_errors :: nat
  xml_errors :: nat
  duplicate_findings :: dup_findings
  orphans :: orphan_findings
  commented_code :: commented_code_findings
  external_paths :: external_path_findings

text \<open>
  One loop of \<open>_categorize_issues\<close> over the categories of one analyzer: the items
  selected by \<open>P\<close>, each wrapped as an issue, in the order of the loop.
\<close>

definition issues_of ::
  "string \<Rightarrow> (pydict \<Rightarrow> bool) \<Rightarrow> ((pydict \<Rightarrow> string) \<times> pydict list) list \<Rightarrow> issue list" where
  "issues_of cat P groups =
     concat (map (\<lambda>(ty, items).
        map (\<lambda>item. \<lparr>i_category = cat, i_type = ty item, i_details = item\<rparr>) (filter P items))
        groups)"

definition dup_groups :: "dup_findings \<Rightarrow> ((pydict \<Rightarrow> string) \<times> pydict list) list" where
  "dup_groups f =
     [(\<lambda>_. ''duplicate_models'', duplicate_models f),
      (\<lambda>_. ''duplicate_functions'', duplicate_functions f),
      (\<lambda>_. ''duplicate_methods'', duplicate_methods f),
      (\<lambda>_. ''duplicate_css_classes'', duplicate_css_classes f),
      (\<lambda>_. ''duplicate_views'', duplicate_views f),
      (\<lambda>_. ''renamed_components'', renamed_components f)]"

definition orphan_groups :: "orphan_findings \<Rightarrow> ((pydict \<Rightarrow> string) \<times> pydict list) list" where
  "orphan_groups f =
     [(\<lambda>_. ''orphaned_python_files'', orphaned_python_files f),
      (\<lambda>_. ''orphaned_models'', orphaned_models f),
      (\<lambda>_. ''orphaned_views'', orphaned_views f),
      (\<lambda>_. ''orphaned_actions'', orphaned_actions f),
      (\<lambda>_. ''orphaned_menus'', orphaned_menus f),
      (\<lambda>_. ''dangling_field_refs'', dangling_field_refs f),
      (\<lambda>_. ''dangling_model_refs'', dangling_model_refs f),
      (\<lambda>_. ''orphaned_assets'', orphaned_assets f)]"

definition commented_groups ::
  "commented_code_findings \<Rightarrow> ((pydict \<Rightarrow> string) \<times> pydict list) list" where
  "commented_groups f =
     [(\<lambda>item. get_default item ''finding_type'' ''commented_python'', cc_python f),
      (\<lambda>item. get_default item ''finding_type'' ''commented_javascript'', cc_javascript f),
      (\<lambda>item. get_default item ''finding_type'' ''commented_xml'', cc_xml f)]"

definition external_groups ::
  "external_path_findings \<Rightarrow> ((pydict \<Rightarrow> string) \<times> pydict list) list" where
  "external_groups f =
     [(\<lambda>_. ''hardcoded_external_paths'', hardcoded_external_paths f),
      (\<lambda>_. ''relative_path_escapes'', relative_path_escapes f),
      (\<lambda>_. ''suspicious_file_operations'', suspicious_file_operations f),
      (\<lambda>_. ''external_imports'', external_imports f)]"

definition is_sev :: "string \<Rightarrow> string \<Rightarrow> pydict \<Rightarrow> bool" where
  "is_sev dflt s item = (get_default item ''severity'' dflt = s)"

text \<open>
  \<open>_categorize_issues\<close>: \<open>report['critical_issues']\<close> and \<open>report['warnings']\<close>. An
  external-path item that is not \<open>critical\<close> is a warning, whatever its severity.
\<close>

definition critical_issues :: "analysis \<Rightarrow> issue list" where
  "critical_issues a =
     issues_of ''duplicate'' (is_sev ''info'' ''error'') (dup_groups (duplicate_findings a))
     @ issues_of ''orphan'' (is_sev ''info'' ''error'') (orphan_groups (orphans a))
     @ issues_of ''commented_code'' (is_sev ''info'' ''error'')
         (commented_groups (commented_code a))
     @ issues_of ''external_path'' (is_sev ''warning'' ''critical'')
         (external_groups (external_paths a))"

definition warnings :: "analysis \<Rightarrow> issue list" where
  "warnings a =
     issues_of ''duplicate'' (is_sev ''info'' ''warning'') (dup_groups (duplicate_findings a))
     @ issues_of ''orphan'' (is_sev ''info'' ''warning'') (orphan_groups (orphans a))
     @ issues_of ''commented_code'' (is_sev ''info'' ''warning'')
         (commented_groups (commented_code a))
     @ issues_of ''external_path'' (\<lambda>item. \<not> is_sev ''warning'' ''critical'' item)
         (external_groups (external_paths a))"

text \<open>
  Python's \<open>int(x)\<close> on a float drops the fraction, towards zero.

  The score is a Python float once the weights \<open>0.5\<close> and \<open>0.3\<close> come in. It is modelled
  by the exact rational: every intermediate value is a multiple of one tenth of small
  size, a value that is not an integer is a tenth or more from the next integer, and a
  value that is an integer is computed exactly by the doubles, so the integer part of
  the float is the integer part of the rational.
\<close>

definition py_int :: "rat \<Rightarrow> int" where
  "py_int q = (if 0 \<le> q then \<lfloor>q\<rfloor> else \<lceil>q\<rceil>)"

text \<open>
  \<open>_calculate_health_score\<close>, on the summaries that the analyzers' own
  \<open>_generate_summary\<close> produced at the end of their \<open>analyze()\<close>. A \<open>KeyError\<close> of a
  summary is an exception of the run.
\<close>

definition score_value :: "analysis \<Rightarrow> nat \<Rightarrow> nat \<Rightarrow> rat" where
  "score_value a dup_total orphan_total =
     100
     - of_nat (length (critical_issues a)) * 10
     - of_nat (length (warnings a)) * 2
     - of_nat dup_total * (1 / 2)
     - of_nat orphan_total * (3 / 10)
     - of_nat (length (hardcoded_external_paths (external_paths a))) * 15
     - of_nat (length (relative_path_escapes (external_paths a))) * 10
     - of_nat (length (suspicious_file_operations (external_paths a))) * 8
     - of_nat (length (external_imports (external_paths a))) * 5
     - of_nat (python_errors a) * 2
     - of_nat (xml_errors a) * 2"

definition calculate_health_score :: "analysis \<Rightarrow> py_error + int" where
  "calculate_health_score a =
     (case dup_generate_summary (duplicate_findings a) of
        Inl e \<Rightarrow> Inl e
      | Inr ds \<Rightarrow>
          (case orphan_total_issues (orphans a) of
             Inl e \<Rightarrow> Inl e
           | Inr ot \<Rightarrow>
               Inr (max 0 (min 100 (py_int (score_value a (s_total_issues ds) ot))))))"

definition no_dup_findings :: dup_findings where
  "no_dup_findings =
     \<lparr>duplicate_models = [], duplicate_functions = [], duplicate_methods = [],
      duplicate_css_classes = [], duplicate_views = [], similar_models = [],
      renamed_components = []\<rparr>"

definition no_orphan_findings :: orphan_findings where
  "no_orphan_findings =
     \<lparr>orphaned_python_files = [], orphaned_models = [], orphaned_views = [],
      orphaned_actions = [], orphaned_menus = [], dangling_field_refs = [],
      dangling_model_refs = [], orphaned_assets = [], unused_css_classes = [],
      missing_dependencies = []\<rparr>"

text \<open>The analysis of a tree with hardcoded-external-path findings and nothing else.\<close>

definition only_hardcoded :: "pydict list \<Rightarrow> analysis" where
  "only_hardcoded items =
     \<lparr>python_errors = 0, xml_errors = 0, duplicate_findings = no_dup_findings,
      orphans = no_orphan_findings,
      commented_code = \<lparr>cc_python = [], cc_javascript = [], cc_xml = []\<rparr>,
      external_paths =
        \<lparr>hardcoded_external_paths = items, relative_path_escapes = [],
         suspicious_file_operations = [], external_imports = []\<rparr>\<rparr>"

section \<open>Code scanner: \<open>scanners/python_scanner.py\<close>\<close>

text \<open>
  What \<open>OdooModelVisitor\<close> extracts from one file: the model, function and import
  dictionaries, by the keys the analyzers read. \<open>relative_path\<close> is absent until the
  scanner sets it.
\<close>

record field_info =
  f_name :: string
  f_type :: string
  f_line :: nat

record model_info =
  class_name :: "string option"
  m_name :: "string option"
  m_inherit :: "string list"
  m_fields :: "field_info list"
  m_methods :: "(string \<times> string) list"
  m_relative_path :: "string option"

record function_info =
  fn_name :: string
  fn_class_name :: "string option"
  fn_body_hash :: string
  fn_relative_path :: "string option"

record import_info =
  imp_type :: string
  imp_module :: string
  imp_name :: "string option"
  imp_file_path :: "string option"
  imp_relative_path :: "string option"

record visitor =
  v_models :: "model_info list"
  v_functions :: "function_info list"
  v_imports :: "import_info list"

text \<open>
  Reading, parsing and visiting one file all happen before \<open>_scan_file\<close> touches the
  results, so what they do is one outcome per file: the visitor, a \<open>SyntaxError\<close> with
  its text and line, or another exception with its text.
\<close>

datatype parse_outcome =
  Parsed visitor
| SyntaxError string "nat option"
| OtherError string

text \<open>
  A file found by \<open>base_path.rglob('*.py')\<close>, by the parts of its path below the base
  path (\<open>relative_to\<close> cannot fail on such a path), with its outcome.
\<close>

record source_file =
  rel_parts :: "string list"
  outcome :: parse_outcome

record scan_error =
  e_file :: string
  e_error :: string
  e_line :: "nat option option"

record init_info =
  ii_imports :: "import_info list"
  ii_path :: string
  ii_relative_path :: string

record scan_results =
  sr_models :: "model_info list"
  sr_functions :: "function_info list"
  sr_imports :: "import_info list"
  sr_files_scanned :: nat
  sr_errors :: "scan_error list"
  sr_init_files :: "(string \<times> init_info) list"
  sr_imported_modules :: "string list"

definition empty_results :: scan_results where
  "empty_results =
     \<lparr>sr_models = [], sr_functions = [], sr_imports = [], sr_files_scanned = 0,
      sr_errors = [], sr_init_files = [], sr_imported_modules = []\<rparr>"

text \<open>
  \<open>str(path)\<close> of a path below the base, \<open>s.startswith(p)\<close> and
  \<open>needle in haystack\<close> on strings.
\<close>

definition str_path :: "string \<Rightarrow> string list \<Rightarrow> string" where
  "str_path base parts = (if parts = [] then base else base @ ''/'' @ join ''/'' parts)"

fun starts_with :: "string \<Rightarrow> string \<Rightarrow> bool" where
  "starts_with [] s = True"
| "starts_with (p # ps) [] = False"
| "starts_with (p # ps) (c # cs) = (p = c \<and> starts_with ps cs)"

fun contains :: "string \<Rightarrow> string \<Rightarrow> bool" where
  "contains needle [] = (needle = [])"
| "contains needle (c # cs) = (starts_with needle (c # cs) \<or> contains needle cs)"

text \<open>\<open>rel_path.parts[0] if rel_path.parts else ''\<close>.\<close>

definition top_module :: "string list \<Rightarrow> string" where
  "top_module parts = (case parts of [] \<Rightarrow> [] | p # _ \<Rightarrow> p)"

text \<open>The test \<open>top_module not in self.module_filter\<close>, when a filter is set.\<close>

definition filtered_out :: "string list \<Rightarrow> string list \<Rightarrow> bool" where
  "filtered_out module_filter parts =
     (module_filter \<noteq> [] \<and> top_module parts \<notin> set module_filter)"

text \<open>The second test of the loop: caches, virtual environments and git directories.\<close>

definition skipped_dir :: "string \<Rightarrow> bool" where
  "skipped_dir path_str =
     (contains ''__pycache__'' path_str \<or> contains ''venv'' path_str
      \<or> contains ''.git'' path_str)"

text \<open>Whether the loop of \<open>PythonScanner.scan\<close> hands a file to \<open>_scan_file\<close>.\<close>

definition selects :: "string \<Rightarrow> string list \<Rightarrow> source_file \<Rightarrow> bool" where
  "selects base module_filter f =
     (if filtered_out module_filter (rel_parts f) then False
      else if skipped_dir (str_path base (rel_parts f)) then False
      else True)"

text \<open>The key of \<open>init_files\<close>: \<open>str(file_path.parent.relative_to(self.base_path))\<close>.\<close>

definition rel_dir :: "string list \<Rightarrow> string" where
  "rel_dir parts = (if butlast parts = [] then ''.'' else join ''/'' (butlast parts))"

fun dict_set :: "(string \<times> 'v) list \<Rightarrow> string \<Rightarrow> 'v \<Rightarrow> (string \<times> 'v) list" where
  "dict_set [] k v = [(k, v)]"
| "dict_set ((k', v') # kvs) k v =
     (if k' = k then (k, v) # kvs else (k', v') # dict_set kvs k v)"

text \<open>\<open>_scan_file\<close>.\<close>

definition scan_file :: "string \<Rightarrow> scan_results \<Rightarrow> source_file \<Rightarrow> scan_results" where
  "scan_file base res f =
     (let file_str = str_path base (rel_parts f) in
      case outcome f of
        Parsed v \<Rightarrow>
          (let rel_path = join ''/'' (rel_parts f);
               imports = map (\<lambda>i. i\<lparr>imp_file_path := Some file_str,
                                     imp_relative_path := Some rel_path\<rparr>) (v_imports v);
               res1 = res\<lparr>sr_models := sr_models res
                             @ map (\<lambda>m. m\<lparr>m_relative_path := Some rel_path\<rparr>) (v_models v),
                           sr_functions := sr_functions res
                             @ map (\<lambda>fn. fn\<lparr>fn_relative_path := Some rel_path\<rparr>)
                                 (v_functions v),
                           sr_imports := sr_imports res @ imports\<rparr>;
               res2 =
                 (if rel_parts f \<noteq> [] \<and> last (rel_parts f) = ''__init__.py''
                  then res1\<lparr>sr_init_files :=
                         dict_set (sr_init_files res1) (rel_dir (rel_parts f))
                           \<lparr>ii_imports = imports, ii_path = file_str,
                            ii_relative_path = rel_dir (rel_parts f)\<rparr>\<rparr>
                  else res1)
           in res2\<lparr>sr_files_scanned := sr_files_scanned res2 + 1\<rparr>)
      | SyntaxError msg line \<Rightarrow>
          res\<lparr>sr_errors := sr_errors res
                 @ [\<lparr>e_file = file_str, e_error = ''Syntax error: '' @ msg,
                     e_line = Some line\<rparr>]\<rparr>
      | OtherError msg \<Rightarrow>
          res\<lparr>sr_errors := sr_errors res
                 @ [\<lparr>e_file = file_str, e_error = msg, e_line = None\<rparr>]\<rparr>)"

text \<open>The loop of \<open>scan\<close> over the files that \<open>rglob\<close> yields.\<close>

fun scan_loop ::
  "string \<Rightarrow> string list \<Rightarrow> source_file list \<Rightarrow> scan_results \<Rightarrow> scan_results" where
  "scan_loop base module_filter [] res = res"
| "scan_loop base module_filter (f # fs) res =
     (if filtered_out module_filter (rel_parts f) then scan_loop base module_filter fs res
      else if skipped_dir (str_path base (rel_parts f))
        then scan_loop base module_filter fs res
      else scan_loop base module_filter fs (scan_file base res f))"

text \<open>
  \<open>_analyze_init_files\<close>: the names imported by the \<open>__init__.py\<close> files. The source
  collects them in a set; the list has each name once.
\<close>

definition imported_of :: "import_info \<Rightarrow> string list" where
  "imported_of imp =
     (if imp_type imp = ''from'' \<and> imp_module imp = ''.''
        then (if truthy (imp_name imp) then [or_empty (imp_name imp)] else [])
      else if imp_type imp = ''from'' \<and> starts_with ''.'' (imp_module imp)
        then (if truthy (imp_name imp) then [or_empty (imp_name imp)] else [])
      else if imp_type imp = ''import''
        then (if imp_module imp \<noteq> [] then [imp_module imp] else [])
      else [])"

definition analyze_init_files :: "scan_results \<Rightarrow> scan_results" where
  "analyze_init_files res =
     res\<lparr>sr_imported_modules :=
           remdups (concat (map (\<lambda>(k, info). concat (map imported_of (ii_imports info)))
                              (sr_init_files res)))\<rparr>"

text \<open>\<open>PythonScanner(base_path, module_filter).scan()\<close>.\<close>

definition scan :: "string \<Rightarrow> string list \<Rightarrow> source_file list \<Rightarrow> scan_results" where
  "scan base module_filter files =
     analyze_init_files (scan_loop base module_filter files empty_results)"

text \<open>What a parsed file adds to the three lists of the result.\<close>

definition file_models :: "source_file \<Rightarrow> model_info list" where
  "file_models f =
     (case outcome f of
        Parsed v \<Rightarrow> map (\<lambda>m. m\<lparr>m_relative_path := Some (join ''/'' (rel_parts f))\<rparr>) (v_models v)
      | _ \<Rightarrow> [])"

definition file_functions :: "source_file \<Rightarrow> function_info list" where
  "file_functions f =
     (case outcome f of
        Parsed v \<Rightarrow>
          map (\<lambda>fn. fn\<lparr>fn_relative_path := Some (join ''/'' (rel_parts f))\<rparr>) (v_functions v)
      | _ \<Rightarrow> [])"

definition file_imports :: "string \<Rightarrow> source_file \<Rightarrow> import_info list" where
  "file_imports base f =
     (case outcome f of
        Parsed v \<Rightarrow>
          map (\<lambda>i. i\<lparr>imp_file_path := Some (str_path base (rel_parts f)),
                      imp_relative_path := Some (join ''/'' (rel_parts f))\<rparr>) (v_imports v)
      | _ \<Rightarrow> [])"

definition file_errors :: "string \<Rightarrow> source_file \<Rightarrow> scan_error list" where
  "file_errors base f =
     (case outcome f of
        Parsed v \<Rightarrow> []
      | SyntaxError msg line \<Rightarrow>
          [\<lparr>e_file = str_path base (rel_parts f), e_error = ''Syntax error: '' @ msg,
            e_line = Some line\<rparr>]
      | OtherError msg \<Rightarrow>
          [\<lparr>e_file = str_path base (rel_parts f), e_error = msg, e_line = None\<rparr>])"

definition is_parsed :: "source_file \<Rightarrow> bool" where
  "is_parsed f = (case outcome f of Parsed v \<Rightarrow> True | _ \<Rightarrow> False)"

section \<open>File loops of \<open>scanners/xml_scanner.py\<close> and \<open>scanners/asset_scanner.py\<close>\<close>

text \<open>
  The two other static scanners walk the same tree. A file is given by the parts of its
  path below the base path; what a scanner does with a file that passed its tests is the
  parameter \<open>body\<close>, a function on the scanner's results.
\<close>

definition xml_skipped :: "string \<Rightarrow> bool" where
  "xml_skipped path_str = (contains ''.git'' path_str \<or> contains ''node_modules'' path_str)"

text \<open>Whether the loop of \<open>XMLScanner.scan\<close> hands a file to \<open>_scan_file\<close>.\<close>

definition xml_selects :: "string \<Rightarrow> string list \<Rightarrow> string list \<Rightarrow> bool" where
  "xml_selects base module_filter parts =
     (if filtered_out module_filter parts then False
      else if xml_skipped (str_path base parts) then False
      else True)"

text \<open>The loop of \<open>XMLScanner.scan\<close> over the files of \<open>rglob('*.xml')\<close>.\<close>

fun xml_scan_loop ::
  "('r \<Rightarrow> string list \<Rightarrow> 'r) \<Rightarrow> string \<Rightarrow> string list \<Rightarrow> string list list \<Rightarrow> 'r \<Rightarrow> 'r" where
  "xml_scan_loop body base module_filter [] res = res"
| "xml_scan_loop body base module_filter (f # fs) res =
     (if filtered_out module_filter f then xml_scan_loop body base module_filter fs res
      else if contains ''.git'' (str_path base f) \<or> contains ''node_modules'' (str_path base f)
        then xml_scan_loop body base module_filter fs res
      else xml_scan_loop body base module_filter fs (body res f))"

text \<open>
  The first test of \<open>_scan_js_file\<close> and of \<open>_scan_css_file\<close>:
  \<open>any(skip in str(file_path) for skip in ['node_modules', '.git', '__pycache__', 'venv'])\<close>.
\<close>

definition asset_skipped :: "string \<Rightarrow> bool" where
  "asset_skipped path_str =
     list_ex (\<lambda>skip. contains skip path_str)
       [''node_modules'', ''.git'', ''__pycache__'', ''venv'']"

text \<open>Whether \<open>_scan_js_file\<close> and \<open>_scan_css_file\<close> go on to read the file.\<close>

definition asset_selects :: "string \<Rightarrow> string list \<Rightarrow> string list \<Rightarrow> bool" where
  "asset_selects base module_filter parts =
     (if asset_skipped (str_path base parts) then False
      else if filtered_out module_filter parts then False
      else True)"

text \<open>\<open>_scan_js_file\<close> and \<open>_scan_css_file\<close>: the two tests, then the body.\<close>

definition scan_asset_file ::
  "('r \<Rightarrow> string list \<Rightarrow> 'r) \<Rightarrow> string \<Rightarrow> string list \<Rightarrow> 'r \<Rightarrow> string list \<Rightarrow> 'r" where
  "scan_asset_file body base module_filter res f =
     (if asset_skipped (str_path base f) then res
      else if filtered_out module_filter f then res
      else body res f)"

text \<open>
  \<open>file_path.suffix\<close>: the part of the file name from its last dot on, if that dot is
  neither the first nor the last character of the name.
\<close>

definition path_suffix :: "string list \<Rightarrow> string" where
  "path_suffix parts =
     (if parts = [] then []
      else (let name = last parts;
                ext = rev (takeWhile (\<lambda>c. c \<noteq> CHR ''.'') (rev name));
                stem = rev (dropWhile (\<lambda>c. c \<noteq> CHR ''.'') (rev name))
            in if ext = [] \<or> length stem < 2 then [] else CHR ''.'' # ext))"

definition is_js :: "string list \<Rightarrow> bool" where
  "is_js parts = (path_suffix parts \<in> set [''.js'', ''.mjs''])"

definition is_css :: "string list \<Rightarrow> bool" where
  "is_css parts = (path_suffix parts \<in> set [''.css'', ''.scss'', ''.sass'', ''.less''])"

text \<open>The loop of \<open>AssetScanner.scan\<close> over the files of \<open>rglob('*')\<close>.\<close>

fun asset_scan_loop ::
  "('r \<Rightarrow> string list \<Rightarrow> 'r) \<Rightarrow> ('r \<Rightarrow> string list \<Rightarrow> 'r) \<Rightarrow> string \<Rightarrow> string list \<Rightarrow>
   string list list \<Rightarrow> 'r \<Rightarrow> 'r" where
  "asset_scan_loop js_body css_body base module_filter [] res = res"
| "asset_scan_loop js_body css_body base module_filter (f # fs) res =
     (if is_js f
        then asset_scan_loop js_body css_body base module_filter fs
               (scan_asset_file js_body base module_filter res f)
      else if is_css f
        then asset_scan_loop js_body css_body base module_filter fs
               (scan_asset_file css_body base module_filter res f)
      else asset_scan_loop js_body css_body base module_filter fs res)"

text \<open>What the loop does with a file that passed the two tests.\<close>

definition asset_step ::
  "('r \<Rightarrow> string list \<Rightarrow> 'r) \<Rightarrow> ('r \<Rightarrow> string list \<Rightarrow> 'r) \<Rightarrow> 'r \<Rightarrow> string list \<Rightarrow> 'r" where
  "asset_step js_body css_body res f =
     (if is_js f then js_body res f else if is_css f then css_body res f else res)"

text \<open>
  \<open>AssetScanner._scan_manifests\<close> walks \<open>rglob('__manifest__.py')\<close> and reads every
  manifest it finds: the module filter does not occur in it.
\<close>

definition scan_manifests ::
  "('r \<Rightarrow> string list \<Rightarrow> 'r) \<Rightarrow> string list list \<Rightarrow> 'r \<Rightarrow> 'r" where
  "scan_manifests body files res =
     foldl body res (filter (\<lambda>f. f \<noteq> [] \<and> last f = ''__manifest__.py'') files)"

section \<open>Similar models: \<open>DuplicateAnalyzer._find_similar_models\<close>\<close>

text \<open>An entry of \<open>models_by_fields\<close>; \<open>fields\<close> is a Python set of field names.\<close>

record model_entry =
  me_name :: string
  me_class_name :: string
  me_fields :: "string set"
  me_file :: string

text \<open>\<open>model.get('_name') or model.get('class_name', 'Unknown')\<close>.\<close>

definition model_name :: "model_info \<Rightarrow> string" where
  "model_name m =
     (if truthy (m_name m) then or_empty (m_name m)
      else (case class_name m of None \<Rightarrow> ''Unknown'' | Some c \<Rightarrow> c))"



text \<open>
  \<open>intersection / union\<close>. The quotient of the two counts is a float in the source and
  the exact fraction here; on counts of field names the float is at or above the
  literals \<open>0.7\<close> and \<open>0.85\<close> exactly when the fraction is at or above 7/10 and 85/100.
\<close>

definition jaccard :: "string set \<Rightarrow> string set \<Rightarrow> rat" where
  "jaccard a b = of_nat (card (a \<inter> b)) / of_nat (card (a \<union> b))"

record similar_finding =
  sf_model1 :: string
  sf_model1_file :: string
  sf_model2 :: string
  sf_model2_file :: string
  sf_ratio :: rat
  sf_common_fields :: "string set"
  sf_severity :: string
  sf_recommendation :: string

text \<open>
  The finding appended for a flagged pair. The source stores the ratio as a percentage
  rounded to one decimal; the record keeps the ratio.
\<close>

definition similar_pair :: "model_entry \<Rightarrow> model_entry \<Rightarrow> similar_finding" where
  "similar_pair model1 model2 =
     \<lparr>sf_model1 = me_name model1, sf_model1_file = me_file model1,
      sf_model2 = me_name model2, sf_model2_file = me_file model2,
      sf_ratio = jaccard (me_fields model1) (me_fields model2),
      sf_common_fields = me_fields model1 \<inter> me_fields model2,
      sf_severity =
        (if jaccard (me_fields model1) (me_fields model2) < 85 / 100 then ''info''
         else ''warning''),
      sf_recommendation = ''Consider using inheritance or a common base model''\<rparr>"

text \<open>
  \<open>pair_key = tuple(sorted([name1, name2]))\<close>: two sorted pairs are equal exactly when
  the two names are the same two names, so the key is the set of the two names.
\<close>

definition pair_key :: "string \<Rightarrow> string \<Rightarrow> string set" where
  "pair_key n1 n2 = {n1, n2}"






definition finding_key :: "similar_finding \<Rightarrow> string set" where
  "finding_key f = pair_key (sf_model1 f) (sf_model2 f)"


section \<open>Scan runs: \<open>models/insights_scan.py\<close>\<close>

datatype scan_state = Draft | Running | Completed | Failed


text \<open>
  A row of \<open>insights.scan\<close>: its state, its configuration and the results that
  \<open>_store_results\<close> and \<open>_create_findings\<close> write. An unset \<open>Char\<close> column is the
  empty string, as it is falsy in the code.
\<close>

record scan =
  state :: scan_state
  base_path :: string
  module_filter :: string
  include_registry :: bool
  use_default_settings :: bool
  health_score :: int
  health_status :: string
  critical_count :: nat
  warning_count :: nat
  findings_new :: nat
  findings_recurring :: nat
  error_message :: "string option"



text \<open>The part of the report of \<open>EcosystemAnalyzer.analyze\<close> that is stored.\<close>

record report =
  rp_health_score :: int
  rp_health_status :: string
  rp_critical_issues :: "issue list"
  rp_warnings :: "issue list"
  rp_recommendations :: "recommendation list"


definition py_space :: "char \<Rightarrow> bool" where
  "py_space c = (c \<in> set [CHR '' '', CHR 0x09, CHR 0x0A, CHR 0x0B, CHR 0x0C, CHR 0x0D,
                           CHR 0x1C, CHR 0x1D, CHR 0x1E, CHR 0x1F, CHR 0x85, CHR 0xA0])"

definition strip :: "string \<Rightarrow> string" where
  "strip w = rev (dropWhile py_space (rev (dropWhile py_space w)))"




text \<open>
  \<open>_store_results\<close> with \<open>_create_findings\<close>: the result columns of the scan and the
  finding table.
\<close>

definition store_results ::
  "(string \<Rightarrow> string) \<Rightarrow> nat \<Rightarrow> nat \<Rightarrow> report \<Rightarrow> scan \<times> finding list \<Rightarrow> scan \<times> finding list" where
  "store_results H now sid rp st =
     (let (sc, store) = st;
          (store', new_count, recurring_count) =
            create_findings H now sid (rp_critical_issues rp) (rp_warnings rp)
              (rp_recommendations rp) store
      in (sc\<lparr>health_score := rp_health_score rp, health_status := rp_health_status rp,
              critical_count := length (rp_critical_issues rp),
              warning_count := length (rp_warnings rp),
              findings_new := new_count, findings_recurring := recurring_count\<rparr>,
          store'))"



text \<open>The severities that every analyzer of the repository writes into its items.\<close>

definition known_severity :: "pydict \<Rightarrow> bool" where
  "known_severity item = (get_default item ''severity'' ''info'' \<in> {''error'', ''warning'', ''info''})"

section \<open>Commented code: \<open>analyzers/commented_code_analyzer.py\<close>\<close>

text \<open>
  The analyzer decides with \<open>re.match\<close> and \<open>re.search\<close> over three tables of regular
  expressions. The expressions of the tables are built from literals, the classes
  \<open>\s\<close>, \<open>\w\<close>, \<open>\d\<close>, \<open>.\<close> and \<open>[-:]\<close>, sequence, alternative, repetition, \<open>^\<close>
  and \<open>\b\<close>. Only whether a match exists is used, never which one, so an expression
  is read as the set of positions where a match that starts at a given position can
  end. Characters are those of ASCII; on them \<open>\w\<close> is a letter, a digit or \<open>_\<close>.
\<close>

datatype cls = Space | Word | Digit | Dot | OneOf string

datatype rx =
  Chr char
| In cls
| Eps
| Seq rx rx
| Alt rx rx
| Star rx
| Bol
| WordB

definition is_word :: "char \<Rightarrow> bool" where
  "is_word c =
     (c \<in> set ''abcdefghijklmnopqrstuvwxyzABCDEFGHIJKLMNOPQRSTUVWXYZ0123456789_'')"

fun in_class :: "cls \<Rightarrow> char \<Rightarrow> bool" where
  "in_class Space c = py_space c"
| "in_class Word c = is_word c"
| "in_class Digit c = is_digit c"
| "in_class Dot c = (c \<noteq> CHR 0x0A)"
| "in_class (OneOf cs) c = (c \<in> set cs)"

definition same_char :: "bool \<Rightarrow> char \<Rightarrow> char \<Rightarrow> bool" where
  "same_char ignore_case a b = (if ignore_case then lower_char a = lower_char b else a = b)"

text \<open>
  The positions reachable by repeating a step: no position lies beyond the end of the
  text, so \<open>length s + 1\<close> rounds reach them all.
\<close>

fun close_under :: "(nat \<Rightarrow> nat list) \<Rightarrow> nat \<Rightarrow> nat list \<Rightarrow> nat list" where
  "close_under step 0 ps = ps"
| "close_under step (Suc n) ps =
     close_under step n (remdups (ps @ concat (map step ps)))"

definition word_at :: "string \<Rightarrow> nat \<Rightarrow> bool" where
  "word_at s i = (i < length s \<and> is_word (s ! i))"

fun ends :: "bool \<Rightarrow> rx \<Rightarrow> string \<Rightarrow> nat \<Rightarrow> nat list" where
  "ends ic (Chr c) s i = (if i < length s \<and> same_char ic (s ! i) c then [i + 1] else [])"
| "ends ic (In k) s i = (if i < length s \<and> in_class k (s ! i) then [i + 1] else [])"
| "ends ic Eps s i = [i]"
| "ends ic (Seq a b) s i = remdups (concat (map (\<lambda>j. ends ic b s j) (ends ic a s i)))"
| "ends ic (Alt a b) s i = remdups (ends ic a s i @ ends ic b s i)"
| "ends ic (Star a) s i = close_under (\<lambda>j. ends ic a s j) (length s + 1) [i]"
| "ends ic Bol s i = (if i = 0 then [i] else [])"
| "ends ic WordB s i =
     (if (0 < i \<and> word_at s (i - 1)) \<noteq> word_at s i then [i] else [])"

text \<open>
  \<open>re.match(r, s)\<close> and \<open>re.search(r, s)\<close> find a match; \<open>ic\<close> is \<open>re.IGNORECASE\<close>.
\<close>

definition re_match :: "bool \<Rightarrow> rx \<Rightarrow> string \<Rightarrow> bool" where
  "re_match ic r s = (ends ic r s 0 \<noteq> [])"

definition re_find :: "bool \<Rightarrow> rx \<Rightarrow> string \<Rightarrow> bool" where
  "re_find ic r s = list_ex (\<lambda>i. ends ic r s i \<noteq> []) [0 ..< length s + 1]"

text \<open>A literal word, an alternative of several and a sequence of several.\<close>

fun lit :: "string \<Rightarrow> rx" where
  "lit [] = Eps"
| "lit [c] = Chr c"
| "lit (c # cs) = Seq (Chr c) (lit cs)"

fun alts :: "rx list \<Rightarrow> rx" where
  "alts [] = Eps"
| "alts [r] = r"
| "alts (r # rs) = Alt r (alts rs)"

fun seqs :: "rx list \<Rightarrow> rx" where
  "seqs [] = Eps"
| "seqs [r] = r"
| "seqs (r # rs) = Seq r (seqs rs)"

text \<open>\<open>r+\<close>, \<open>r?\<close>, \<open>\s*\<close> and \<open>\s+\<close>.\<close>

definition one_or_more :: "rx \<Rightarrow> rx" where
  "one_or_more r = Seq r (Star r)"

definition optional :: "rx \<Rightarrow> rx" where
  "optional r = Alt r Eps"

definition ws :: rx where
  "ws = Star (In Space)"

definition ws1 :: rx where
  "ws1 = one_or_more (In Space)"

definition DELETION_MARKERS :: "rx list" where
  "DELETION_MARKERS =
     [seqs [Chr CHR ''#'', ws, alts (map lit [''TODO'', ''FIXME'', ''XXX'', ''HACK'']), ws,
            optional (Chr CHR '':''), ws, Star (In Dot), alts (map lit [''delete'', ''remove'']),
            ws, alts (map lit [''this'', ''code'', ''file'', ''method'', ''function'', ''class''])],
      seqs [Chr CHR ''#'', ws,
            alts [lit ''DEPRECATED'', lit ''OBSOLETE'', seqs [lit ''DEAD'', ws, lit ''CODE'']],
            ws, In (OneOf ''-:'')],
      seqs [Chr CHR ''#'', ws,
            alts [seqs [lit ''TO'', ws, lit ''BE'', ws, lit ''REMOVED''],
                  seqs [lit ''REMOVE'', ws, lit ''ME''],
                  seqs [lit ''DELETE'', ws, lit ''ME''],
                  seqs [lit ''MARKED'', ws, lit ''FOR'', ws, lit ''DELETION'']]],
      seqs [Chr CHR ''#'', ws,
            alts [seqs [lit ''MOVED'', ws, lit ''TO''], seqs [lit ''REPLACED'', ws, lit ''BY''],
                  seqs [lit ''MIGRATED'', ws, lit ''TO'']]],
      seqs [Chr CHR ''#'', ws, lit ''commented'', ws, alts (map lit [''out'', ''for'', ''to'']),
            ws, alts (map lit [''test'', ''debug'', ''review'', ''deletion''])],
      alts [Seq (lit ''_old'') WordB, Seq (lit ''_backup'') WordB,
            Seq (lit ''_deprecated'') WordB, Seq (lit ''_unused'') WordB],
      seqs [Chr CHR ''#'', ws,
            alts [seqs [lit ''Phase'', ws, one_or_more (In Digit)], Seq (Chr CHR ''v'') (one_or_more (In Digit))],
            ws, optional (In (OneOf ''-:'')), ws,
            alts (map lit [''DEPRECATED'', ''removed'', ''deleted''])]]"

definition DELETION_MARKER_EXCLUSIONS :: "rx list" where
  "DELETION_MARKER_EXCLUSIONS =
     [seqs [lit ''remove'', ws,
            alts (map lit [''from'', ''older'', ''expired'', ''duplicate'', ''trailing'',
                           ''spaces'', ''whitespace''])],
      seqs [lit ''delete'', ws,
            alts (map lit [''from'', ''older'', ''expired'', ''duplicate'', ''all'', ''record'',
                           ''data''])],
      seqs [lit ''clean'', ws, lit ''up'', ws,
            alts (map lit [''vendor'', ''name'', ''data'', ''cache'', ''old''])],
      seqs [lit ''skip'', ws, alts (map lit [''non'', ''special'', ''empty''])]]"

definition comment_start :: rx where
  "comment_start = seqs [Bol, ws, Chr CHR ''#'', ws]"

definition PYTHON_CODE_PATTERNS :: "rx list" where
  "PYTHON_CODE_PATTERNS =
     [Seq comment_start
        (alts [seqs [lit ''def'', ws1, one_or_more (In Word)], seqs [lit ''class'', ws1, one_or_more (In Word)],
               Seq (lit ''if'') ws1, Seq (lit ''elif'') ws1, lit ''else:'', Seq (lit ''for'') ws1,
               Seq (lit ''while'') ws1, lit ''try:'', lit ''except'', lit ''finally:'']),
      Seq comment_start
        (alts [Seq (lit ''return'') ws1, Seq (lit ''raise'') ws1, Seq (lit ''yield'') ws1,
               Seq (lit ''import'') ws1, Seq (lit ''from'') ws1]),
      seqs [comment_start, one_or_more (In Word), ws, Chr CHR ''='', ws],
      Seq comment_start
        (alts [seqs [lit ''self.'', one_or_more (In Word)], lit ''super()'']),
      seqs [comment_start, Chr CHR ''@'',
            alts (map lit [''api.'', ''staticmethod'', ''classmethod'', ''property''])],
      seqs [comment_start, Chr CHR ''_'', one_or_more (In Word), ws, Chr CHR ''='']]"

text \<open>
  \<open>any(re.search(marker, text, re.IGNORECASE) for marker in self.DELETION_MARKERS)\<close>,
  the same for the exclusions, and
  \<open>any(re.match(pattern, line) for pattern in self.PYTHON_CODE_PATTERNS)\<close>.
\<close>

definition has_marker :: "string \<Rightarrow> bool" where
  "has_marker text = list_ex (\<lambda>m. re_find True m text) DELETION_MARKERS"

definition is_excluded :: "string \<Rightarrow> bool" where
  "is_excluded text = list_ex (\<lambda>m. re_find True m text) DELETION_MARKER_EXCLUSIONS"

definition looks_like_code :: "string \<Rightarrow> bool" where
  "looks_like_code line = list_ex (\<lambda>m. re_match False m line) PYTHON_CODE_PATTERNS"

text \<open>\<open>str(n)\<close> for the count in the preview.\<close>

function nat_str :: "nat \<Rightarrow> string" where
  "nat_str n =
     (if n < 10 then [''0123456789'' ! n]
      else nat_str (n div 10) @ [''0123456789'' ! (n mod 10)])"
  by pat_completeness auto
termination
  by (relation "measure id") auto

declare nat_str.simps [simp del]

datatype cc_error = IndexError

record cc_finding =
  cc_file_path :: string
  cc_relative_path :: string
  cc_line_start :: "nat option"
  cc_line_end :: nat
  cc_line_count :: nat
  cc_code_type :: string
  cc_preview :: string
  cc_has_deletion_marker :: bool
  cc_severity :: string
  cc_finding_type :: string

definition rstrip :: "string \<Rightarrow> string" where
  "rstrip w = rev (dropWhile py_space (rev w))"

text \<open>
  \<open>_create_finding\<close>. The searches over the deletion markers and over the exclusions
  are the parameters \<open>marker\<close> and \<open>excl\<close>; \<open>has_marker\<close> and \<open>is_excluded\<close> are the
  ones the class uses. \<open>block_lines[-1]\<close> of an empty block is an \<open>IndexError\<close>.
\<close>

definition create_finding ::
  "(string \<Rightarrow> bool) \<Rightarrow> (string \<Rightarrow> bool) \<Rightarrow> string \<Rightarrow> string \<Rightarrow> nat option \<Rightarrow>
   (nat \<times> string) list \<Rightarrow> string \<Rightarrow> cc_error + cc_finding option" where
  "create_finding marker excl file_path rel_path block_start block_lines code_type =
     (if length block_lines < 2
         \<and> \<not> marker (case block_lines of [] \<Rightarrow> [] | l # _ \<Rightarrow> snd l)
      then Inr None
      else
        (case block_lines of
           [] \<Rightarrow> Inl IndexError
         | _ # _ \<Rightarrow>
             (let block_end = fst (last block_lines);
                  preview =
                    join [CHR 0x0A] (map snd (take 3 block_lines))
                    @ (if 3 < length block_lines
                       then [CHR 0x0A] @ ''... ('' @ nat_str (length block_lines - 3)
                            @ '' more lines)''
                       else []);
                  full_text = join [CHR 0x0A] (map snd block_lines);
                  has_deletion = (if excl full_text then False else marker full_text)
              in Inr (Some
                   \<lparr>cc_file_path = file_path, cc_relative_path = rel_path,
                    cc_line_start = block_start, cc_line_end = block_end,
                    cc_line_count = length block_lines, cc_code_type = code_type,
                    cc_preview = preview, cc_has_deletion_marker = has_deletion,
                    cc_severity = (if has_deletion then ''warning'' else ''info''),
                    cc_finding_type = ''commented_'' @ code_type @ ''_code''\<rparr>))))"

text \<open>
  The end of a block in \<open>_analyze_python_file\<close>: \<open>if block_lines:\<close> the finding of the
  block, if there is one, is appended.
\<close>

definition flush_block ::
  "(string \<Rightarrow> bool) \<Rightarrow> (string \<Rightarrow> bool) \<Rightarrow> string \<Rightarrow> string \<Rightarrow> nat option \<Rightarrow>
   (nat \<times> string) list \<Rightarrow> cc_finding list \<Rightarrow> cc_error + cc_finding list" where
  "flush_block marker excl file_path rel_path block_start block_lines findings =
     (if block_lines \<noteq> [] then
        (case create_finding marker excl file_path rel_path block_start block_lines ''python'' of
           Inl e \<Rightarrow> Inl e
         | Inr None \<Rightarrow> Inr findings
         | Inr (Some f) \<Rightarrow> Inr (findings @ [f]))
      else Inr findings)"

text \<open>
  The loop of \<open>_analyze_python_file\<close> over the numbered lines, with the block being
  accumulated; \<open>code\<close> is the test of the line against \<open>PYTHON_CODE_PATTERNS\<close>.
\<close>

fun block_loop ::
  "(string \<Rightarrow> bool) \<Rightarrow> (string \<Rightarrow> bool) \<Rightarrow> (string \<Rightarrow> bool) \<Rightarrow> string \<Rightarrow> string \<Rightarrow>
   (nat \<times> string) list \<Rightarrow> nat option \<Rightarrow> (nat \<times> string) list \<Rightarrow> cc_finding list \<Rightarrow>
   cc_error + cc_finding list" where
  "block_loop code marker excl file_path rel_path [] block_start block_lines findings =
     flush_block marker excl file_path rel_path block_start block_lines findings"
| "block_loop code marker excl file_path rel_path ((i, line) # rest) block_start block_lines
     findings =
     (if starts_with ''#'' (strip line) \<and> code line then
        block_loop code marker excl file_path rel_path rest
          (case block_start of None \<Rightarrow> Some i | Some b \<Rightarrow> Some b)
          (block_lines @ [(i, rstrip line)]) findings
      else
        (case flush_block marker excl file_path rel_path block_start block_lines findings of
           Inl e \<Rightarrow> Inl e
         | Inr findings' \<Rightarrow>
             block_loop code marker excl file_path rel_path rest None [] findings'))"

text \<open>\<open>_find_deletion_markers\<close>, over the numbered lines.\<close>

fun find_deletion_markers ::
  "(string \<Rightarrow> bool) \<Rightarrow> (string \<Rightarrow> bool) \<Rightarrow> (nat \<times> string) list \<Rightarrow> string \<Rightarrow> string \<Rightarrow>
   string \<Rightarrow> cc_finding list" where
  "find_deletion_markers marker excl [] file_path rel_path comment_prefix = []"
| "find_deletion_markers marker excl ((i, line) # rest) file_path rel_path comment_prefix =
     (if starts_with comment_prefix (strip line) then
        (if excl (strip line)
           then find_deletion_markers marker excl rest file_path rel_path comment_prefix
         else if marker (strip line) then
           \<lparr>cc_file_path = file_path, cc_relative_path = rel_path, cc_line_start = Some i,
            cc_line_end = i, cc_line_count = 1,
            cc_code_type = (if comment_prefix = ''#'' then ''python'' else ''javascript''),
            cc_preview = take 100 (strip line)
                         @ (if 100 < length (strip line) then ''...'' else []),
            cc_has_deletion_marker = True, cc_severity = ''warning'',
            cc_finding_type = ''deletion_marker''\<rparr>
           # find_deletion_markers marker excl rest file_path rel_path comment_prefix
         else find_deletion_markers marker excl rest file_path rel_path comment_prefix)
      else find_deletion_markers marker excl rest file_path rel_path comment_prefix)"

text \<open>\<open>enumerate(lines, 1)\<close>.\<close>

definition enumerate1 :: "string list \<Rightarrow> (nat \<times> string) list" where
  "enumerate1 lines = enumerate 1 lines"

text \<open>\<open>_analyze_python_file\<close> on the lines of a file that could be read.\<close>

definition analyze_python_lines ::
  "(string \<Rightarrow> bool) \<Rightarrow> (string \<Rightarrow> bool) \<Rightarrow> (string \<Rightarrow> bool) \<Rightarrow> string \<Rightarrow> string \<Rightarrow>
   string list \<Rightarrow> cc_error + cc_finding list" where
  "analyze_python_lines code marker excl file_path rel_path lines =
     (case block_loop code marker excl file_path rel_path (enumerate1 lines) None [] [] of
        Inl e \<Rightarrow> Inl e
      | Inr findings \<Rightarrow>
          Inr (findings
               @ find_deletion_markers marker excl (enumerate1 lines) file_path rel_path ''#''))"

text \<open>
  A comment line that looks like code: the lines that \<open>_analyze_python_file\<close> accumulates.
\<close>

definition code_comment :: "(string \<Rightarrow> bool) \<Rightarrow> string \<Rightarrow> bool" where
  "code_comment code line = (starts_with ''#'' (strip line) \<and> code line)"

text \<open>
  The finding of a block of the single line \<open>i\<close> with the text \<open>t\<close>, and the rule of
  \<open>_create_finding\<close> on a finding of a block: it has two lines or more, or its text, which
  for one line is its preview, matches a deletion marker.
\<close>

definition single_line_finding ::
  "(string \<Rightarrow> bool) \<Rightarrow> string \<Rightarrow> string \<Rightarrow> nat option \<Rightarrow> nat \<Rightarrow> string \<Rightarrow> string \<Rightarrow>
   cc_finding" where
  "single_line_finding excl file_path rel_path block_start i t code_type =
     \<lparr>cc_file_path = file_path, cc_relative_path = rel_path, cc_line_start = block_start,
      cc_line_end = i, cc_line_count = 1, cc_code_type = code_type, cc_preview = t,
      cc_has_deletion_marker = (\<not> excl t),
      cc_severity = (if excl t then ''info'' else ''warning''),
      cc_finding_type = ''commented_'' @ code_type @ ''_code''\<rparr>"

definition block_rule :: "(string \<Rightarrow> bool) \<Rightarrow> cc_finding \<Rightarrow> bool" where
  "block_rule marker f = (2 \<le> cc_line_count f \<or> marker (cc_preview f))"

section \<open>Concrete inputs\<close>

definition resolved_row :: finding where
  "resolved_row =
     \<lparr>fingerprint = ''abc'', scan_id = Some 1, first_seen_scan_id = Some 1,
      first_seen_date = Some 10, last_seen_date = Some 20, occurrence_count = 2,
      status = Resolved, severity = Some ''warning'', category = Some ''orphan'',
      finding_type = Some ''orphaned_views'', title = None, description = Some ''old text'',
      priority = None, effort = None, impact = None, details_json = None\<rparr>"

definition redetected_vals :: vals where
  "redetected_vals =
     \<lparr>v_fingerprint = Some ''abc'', v_severity = Some ''critical'',
      v_category = Some ''orphan'', v_finding_type = Some ''orphaned_views'',
      v_title = None, v_description = Some ''new text'', v_priority = None,
      v_effort = None, v_impact = None, v_details_json = None\<rparr>"

text \<open>Two commented-code warnings of one file, as one scan of that file reports them.\<close>

definition block_at :: "string \<Rightarrow> issue" where
  "block_at line =
     \<lparr>i_category = ''commented_code'', i_type = ''commented_python_code'',
      i_details = [''relative_path'' \<mapsto> ''ai_sam/models/a.py'', ''line_start'' \<mapsto> line,
                   ''severity'' \<mapsto> ''warning'']\<rparr>"

definition two_blocks :: "issue list" where
  "two_blocks = [block_at ''10'', block_at ''40'']"

text \<open>Files of a tree with the modules \<open>ai_sam\<close> and \<open>ai_sam_base\<close>.\<close>

definition cache_file :: source_file where
  "cache_file = \<lparr>rel_parts = [''ai_sam'', ''__pycache__'', ''m.py''],
                 outcome = Parsed \<lparr>v_models = [], v_functions = [], v_imports = []\<rparr>\<rparr>"

definition task_model :: model_info where
  "task_model =
     \<lparr>class_name = Some ''Task'', m_name = Some ''sam.task'', m_inherit = [],
      m_fields = [\<lparr>f_name = ''name'', f_type = ''Char'', f_line = 5\<rparr>],
      m_methods = [], m_relative_path = None\<rparr>"

definition good_file :: source_file where
  "good_file =
     \<lparr>rel_parts = [''ai_sam'', ''models'', ''task.py''],
      outcome = Parsed \<lparr>v_models = [task_model], v_functions = [], v_imports = []\<rparr>\<rparr>"

definition broken_file :: source_file where
  "broken_file =
     \<lparr>rel_parts = [''ai_sam'', ''models'', ''broken.py''],
      outcome = SyntaxError ''invalid syntax (broken.py, line 3)'' (Some 3)\<rparr>"

definition sibling_file :: source_file where
  "sibling_file =
     \<lparr>rel_parts = [''ai_sam_base'', ''models'', ''user.py''],
      outcome = Parsed \<lparr>v_models = [], v_functions = [], v_imports = []\<rparr>\<rparr>"













definition critical_path_item :: pydict where
  "critical_path_item =
     [''file'' \<mapsto> ''ai_sam/models/a.py'', ''line_number'' \<mapsto> ''12'',
      ''severity'' \<mapsto> ''critical'']"

text \<open>Two similar-model findings next to one duplicate function.\<close>

definition dup_with_similar :: dup_findings where
  "dup_with_similar =
     no_dup_findings
       \<lparr>duplicate_functions := [[''severity'' \<mapsto> ''warning'']],
        similar_models := [[''severity'' \<mapsto> ''info''], [''severity'' \<mapsto> ''warning'']]\<rparr>"


section \<open>Properties of the finding store\<close>

lemma search_fingerprint_Some:
  "search_fingerprint fp fs = Some i \<Longrightarrow> i < length fs \<and> fingerprint (fs ! i) = fp"
proof (induction fs arbitrary: i)
  case Nil
  then show ?case by simp
next
  case (Cons f fs)
  then show ?case by (cases "fingerprint f = fp") auto
qed

lemma search_fingerprint_None:
  "search_fingerprint fp fs = None \<longleftrightarrow> (\<forall>f \<in> set fs. fingerprint f \<noteq> fp)"
  by (induction fs) auto


lemma find_or_create_hit:
  "search_fingerprint (candidate_fingerprint H v) store = Some i \<Longrightarrow>
   find_or_create H now sid v store =
     (store[i := update_existing now sid v (store ! i)], update_existing now sid v (store ! i))"
  by (simp add: find_or_create_def Let_def)

lemma find_or_create_miss:
  "search_fingerprint (candidate_fingerprint H v) store = None \<Longrightarrow>
   find_or_create H now sid v store =
     (store @ [create_new now sid (candidate_fingerprint H v) v],
      create_new now sid (candidate_fingerprint H v) v)"
  by (simp add: find_or_create_def Let_def)

lemma create_new_fields:
  "first_seen_date (create_new now sid fp v) = Some now"
  "last_seen_date (create_new now sid fp v) = Some now"
  "occurrence_count (create_new now sid fp v) = 1"
  "status (create_new now sid fp v) = New"
  "fingerprint (create_new now sid fp v) = fp"
  by (simp_all add: create_new_def)

lemma update_existing_counts:
  "occurrence_count (update_existing now sid v f) = occurrence_count f + 1"
  "scan_id (update_existing now sid v f) = Some sid"
  "last_seen_date (update_existing now sid v f) = Some now"
  "status (update_existing now sid v f) = status f"
  "fingerprint (update_existing now sid v f) = fingerprint f"
  "first_seen_date (update_existing now sid v f) = first_seen_date f"
  by (simp_all add: update_existing_def Let_def)

text \<open>
  C2. When the candidate's fingerprint is already in the table, \<open>find_or_create\<close>
  rewrites that one row: \<open>scan_id\<close>, \<open>last_seen_date\<close> and \<open>occurrence_count\<close> advance
  and \<open>status\<close> stays. If the row's status is not \<open>new\<close>, nothing else of the row
  changes, so severity and description stay; a change of severity or description
  happens only to a row whose status is \<open>new\<close>, and there it takes the candidate's
  non-empty value.
\<close>

theorem find_or_create_keeps_triage:
  assumes "search_fingerprint (candidate_fingerprint H v) store = Some i"
  shows "\<exists>r. find_or_create H now sid v store = (store[i := r], r)
         \<and> scan_id r = Some sid \<and> last_seen_date r = Some now
         \<and> occurrence_count r = occurrence_count (store ! i) + 1
         \<and> status r = status (store ! i)
         \<and> (status (store ! i) \<noteq> New \<longrightarrow>
              severity r = severity (store ! i) \<and> description r = description (store ! i)
              \<and> r = (store ! i)\<lparr>scan_id := Some sid, last_seen_date := Some now,
                       occurrence_count := occurrence_count (store ! i) + 1\<rparr>)
         \<and> (status (store ! i) = New \<longrightarrow>
              severity r = (if truthy (v_severity v) then v_severity v
                            else severity (store ! i))
              \<and> description r = (if truthy (v_description v) then v_description v
                                 else description (store ! i)))"
  using assms by (auto simp: find_or_create_hit update_existing_def Let_def)

theorem find_or_create_keeps_triage_witness:
  "search_fingerprint (candidate_fingerprint (\<lambda>s. s) redetected_vals) [resolved_row] = Some 0
   \<and> find_or_create (\<lambda>s. s) 30 2 redetected_vals [resolved_row]
       = ([resolved_row\<lparr>scan_id := Some 2, last_seen_date := Some 30, occurrence_count := 3\<rparr>],
          resolved_row\<lparr>scan_id := Some 2, last_seen_date := Some 30, occurrence_count := 3\<rparr>)
   \<and> status (snd (find_or_create (\<lambda>s. s) 30 2 redetected_vals [resolved_row])) = Resolved
   \<and> severity (snd (find_or_create (\<lambda>s. s) 30 2 redetected_vals [resolved_row]))
       = Some ''warning''"
proof -
  have h: "search_fingerprint (candidate_fingerprint (\<lambda>s. s) redetected_vals) [resolved_row]
             = Some 0"
    by (simp add: candidate_fingerprint_def redetected_vals_def resolved_row_def
        truthy_def or_empty_def)
  have n: "status ([resolved_row] ! 0) \<noteq> New"
    by (simp add: resolved_row_def)
  from find_or_create_keeps_triage [OF h, of 30 2] n
  show ?thesis using h by (auto simp: resolved_row_def)
qed

text \<open>
  C3, evaluated. One scan reports two commented-code blocks of the same file. Their
  fingerprints coincide (severity, category, type and file are the same), so the first
  call creates the row with \<open>occurrence_count = 1\<close> and the second call of the same scan
  already finds it: after the first scan the count is 2, after the unchanged second scan
  it is 4.
\<close>

theorem create_findings_same_file_twice:
  "map occurrence_count (fst (create_findings (\<lambda>s. s) 5 1 [] two_blocks [] [])) = [2]
   \<and> map occurrence_count
        (fst (create_findings (\<lambda>s. s) 6 2 [] two_blocks []
               (fst (create_findings (\<lambda>s. s) 5 1 [] two_blocks [] [])))) = [4]"
  by (simp add: create_findings_def two_blocks_def block_at_def issue_vals_def
      find_or_create_def candidate_fingerprint_def generate_fingerprint_def get_or_def
      truthy_def or_empty_def create_new_def update_existing_def Let_def)




lemma count_severities_value:
  "count_severities counts items = Inr c \<Longrightarrow>
   c k = (case counts k of None \<Rightarrow> None
          | Some n \<Rightarrow> Some (n + length (filter (\<lambda>i. get_default i ''severity'' ''info'' = k) items)))"
proof (induction items arbitrary: counts)
  case Nil
  then show ?case by (simp split: option.splits)
next
  case (Cons item items)
  show ?case
  proof (cases "counts (get_default item ''severity'' ''info'')")
    case None
    with Cons.prems show ?thesis by (simp add: Let_def)
  next
    case (Some n)
    with Cons.prems have
      "count_severities (counts(get_default item ''severity'' ''info'' \<mapsto> n + 1)) items = Inr c"
      by (simp add: Let_def)
    from Cons.IH [OF this] Some show ?thesis
      by (auto split: option.splits)
  qed
qed

lemma count_severities_total:
  "list_all (\<lambda>item. get_default item ''severity'' ''info'' \<in> dom counts) items \<Longrightarrow>
   \<exists>c. count_severities counts items = Inr c"
proof (induction items arbitrary: counts)
  case Nil
  then show ?case by simp
next
  case (Cons item items)
  from Cons.prems obtain n where n: "counts (get_default item ''severity'' ''info'') = Some n"
    by auto
  have "list_all (\<lambda>i. get_default i ''severity'' ''info''
          \<in> dom (counts(get_default item ''severity'' ''info'' \<mapsto> n + 1))) items"
    using Cons.prems by (auto simp: list_all_iff)
  from Cons.IH [OF this] obtain c where
    "count_severities (counts(get_default item ''severity'' ''info'' \<mapsto> n + 1)) items = Inr c"
    by blast
  then show ?case using n by (simp add: Let_def)
qed

lemma dup_summary_none:
  "dup_generate_summary no_dup_findings = Inr ds \<Longrightarrow> s_total_issues ds = 0"
  by (auto simp: dup_generate_summary_def dup_counted_def no_dup_findings_def)

lemma dup_summary_none_ex: "\<exists>ds. dup_generate_summary no_dup_findings = Inr ds"
  by (simp add: dup_generate_summary_def dup_counted_def no_dup_findings_def)

lemma orphan_total_none: "orphan_total_issues no_orphan_findings = Inr 0"
  by (simp add: orphan_total_issues_def orphan_counted_def no_orphan_findings_def)

lemma critical_only_hardcoded:
  "length (critical_issues (only_hardcoded items))
     = length (filter (is_sev ''warning'' ''critical'') items)"
  by (simp add: critical_issues_def only_hardcoded_def issues_of_def dup_groups_def
      orphan_groups_def commented_groups_def external_groups_def no_dup_findings_def
      no_orphan_findings_def)

lemma warnings_only_hardcoded:
  "length (warnings (only_hardcoded items))
     = length (filter (\<lambda>i. \<not> is_sev ''warning'' ''critical'' i) items)"
  by (simp add: warnings_def only_hardcoded_def issues_of_def dup_groups_def
      orphan_groups_def commented_groups_def external_groups_def no_dup_findings_def
      no_orphan_findings_def)

lemma score_only_hardcoded:
  "score_value (only_hardcoded [item]) 0 0 =
     (if is_sev ''warning'' ''critical'' item then 75 else 83)"
  by (simp add: score_value_def critical_only_hardcoded warnings_only_hardcoded)
     (simp add: only_hardcoded_def)

lemma health_one_hardcoded:
  "calculate_health_score (only_hardcoded [item]) =
     Inr (if is_sev ''warning'' ''critical'' item then 75 else 83)"
proof -
  obtain ds where ds: "dup_generate_summary no_dup_findings = Inr ds"
    using dup_summary_none_ex by blast
  have d: "duplicate_findings (only_hardcoded [item]) = no_dup_findings"
          "orphans (only_hardcoded [item]) = no_orphan_findings"
    by (simp_all add: only_hardcoded_def)
  show ?thesis
    by (simp add: calculate_health_score_def d ds dup_summary_none [OF ds] orphan_total_none
        score_only_hardcoded py_int_def)
qed


lemma dom_zero_counts: "dom zero_counts = {''error'', ''warning'', ''info''}"
  by (auto simp: zero_counts_def split: if_splits)

lemma dup_summary_counts:
  assumes "list_all known_severity (dup_counted f)"
  shows "\<exists>s. dup_generate_summary f = Inr s
           \<and> s_total_issues s =
               length (duplicate_models f) + length (duplicate_functions f)
               + length (duplicate_methods f) + length (duplicate_css_classes f)
               + length (duplicate_views f) + length (renamed_components f)
           \<and> s_similar_models s = length (similar_models f)
           \<and> s_severity_counts s ''error''
               = Some (length (filter (\<lambda>i. get_default i ''severity'' ''info'' = ''error'')
                                 (dup_counted f)))
           \<and> s_severity_counts s ''warning''
               = Some (length (filter (\<lambda>i. get_default i ''severity'' ''info'' = ''warning'')
                                 (dup_counted f)))
           \<and> s_severity_counts s ''info''
               = Some (length (filter (\<lambda>i. get_default i ''severity'' ''info'' = ''info'')
                                 (dup_counted f)))"
proof -
  have "list_all (\<lambda>item. get_default item ''severity'' ''info'' \<in> dom zero_counts)
          (dup_counted f)"
    using assms by (auto simp: known_severity_def dom_zero_counts list_all_iff)
  from count_severities_total [OF this] obtain c where
    c: "count_severities zero_counts (dup_counted f) = Inr c" by blast
  have z: "zero_counts ''error'' = Some 0" "zero_counts ''warning'' = Some 0"
          "zero_counts ''info'' = Some 0"
    by (simp_all add: zero_counts_def)
  show ?thesis
    using count_severities_value [OF c, of "''error''"]
      count_severities_value [OF c, of "''warning''"]
      count_severities_value [OF c, of "''info''"]
    by (simp add: dup_generate_summary_def c z)
qed

lemma issues_ignore_similar:
  "critical_issues (a\<lparr>duplicate_findings := (duplicate_findings a)\<lparr>similar_models := xs\<rparr>\<rparr>)
     = critical_issues a"
  "warnings (a\<lparr>duplicate_findings := (duplicate_findings a)\<lparr>similar_models := xs\<rparr>\<rparr>)
     = warnings a"
  by (simp_all add: critical_issues_def warnings_def dup_groups_def)

lemma score_ignores_similar:
  "score_value (a\<lparr>duplicate_findings := (duplicate_findings a)\<lparr>similar_models := xs\<rparr>\<rparr>) d ot
     = score_value a d ot"
  by (simp add: score_value_def issues_ignore_similar)

lemma health_ignores_similar:
  assumes "list_all known_severity (dup_counted (duplicate_findings a))"
  shows "calculate_health_score
           (a\<lparr>duplicate_findings := (duplicate_findings a)\<lparr>similar_models := []\<rparr>\<rparr>)
         = calculate_health_score a"
proof -
  let ?f = "duplicate_findings a"
  have "list_all known_severity (dup_counted (?f\<lparr>similar_models := []\<rparr>))"
    using assms by (simp add: dup_counted_def)
  from dup_summary_counts [OF this] dup_summary_counts [OF assms]
  obtain s s' where "dup_generate_summary (?f\<lparr>similar_models := []\<rparr>) = Inr s"
    "dup_generate_summary ?f = Inr s'" "s_total_issues s = s_total_issues s'"
    by auto
  then show ?thesis
    by (simp add: calculate_health_score_def score_ignores_similar split: sum.splits)
qed


text \<open>
  C1, as the code has it. A tree whose analysis holds one hardcoded-external-path finding
  and nothing else: \<open>_categorize_issues\<close> has already put that finding among the
  critical issues (severity \<open>critical\<close>) or among the warnings (any other severity), so
  the score loses 10 or 2 points for the bucket and then 15 for the category: it is 75
  for a critical finding and 83 otherwise.
\<close>

theorem health_score_one_hardcoded_path:
  "calculate_health_score (only_hardcoded [item]) =
     Inr (if get_default item ''severity'' ''warning'' = ''critical'' then 75 else 83)"
  using health_one_hardcoded [of item] by (simp add: is_sev_def)

text \<open>
  The score of 85 that C1 states is not reached: the finding that the pattern scan
  reports for a path into another repository is \<open>critical\<close>, and the score is 75.
\<close>

theorem health_score_one_hardcoded_not_85:
  "calculate_health_score (only_hardcoded [critical_path_item]) = Inr 75
   \<and> calculate_health_score (only_hardcoded [critical_path_item]) \<noteq> Inr 85"
  using health_one_hardcoded [of critical_path_item]
  by (simp add: is_sev_def critical_path_item_def get_default_def)

text \<open>
  C10. When every item carries one of the severities \<open>error\<close>, \<open>warning\<close>, \<open>info\<close>,
  the summary exists; its \<open>total_issues\<close> is the sum of the six categories other than
  \<open>similar_models\<close>; its \<open>severity_counts\<close> count the items of all seven categories,
  \<open>similar_models\<close> among them; and the health score of the orchestrator is the same
  with the similar-model findings as without them.
\<close>

theorem dup_total_issues_excludes_similar:
  assumes "list_all known_severity (dup_counted (duplicate_findings a))"
  shows "\<exists>s. dup_generate_summary (duplicate_findings a) = Inr s
           \<and> s_total_issues s =
               length (duplicate_models (duplicate_findings a))
               + length (duplicate_functions (duplicate_findings a))
               + length (duplicate_methods (duplicate_findings a))
               + length (duplicate_css_classes (duplicate_findings a))
               + length (duplicate_views (duplicate_findings a))
               + length (renamed_components (duplicate_findings a))
           \<and> s_similar_models s = length (similar_models (duplicate_findings a))
           \<and> s_severity_counts s ''error''
               = Some (length (filter (\<lambda>i. get_default i ''severity'' ''info'' = ''error'')
                                 (dup_counted (duplicate_findings a))))
           \<and> s_severity_counts s ''warning''
               = Some (length (filter (\<lambda>i. get_default i ''severity'' ''info'' = ''warning'')
                                 (dup_counted (duplicate_findings a))))
           \<and> s_severity_counts s ''info''
               = Some (length (filter (\<lambda>i. get_default i ''severity'' ''info'' = ''info'')
                                 (dup_counted (duplicate_findings a))))
           \<and> calculate_health_score
                (a\<lparr>duplicate_findings := (duplicate_findings a)\<lparr>similar_models := []\<rparr>\<rparr>)
              = calculate_health_score a"
  using dup_summary_counts [OF assms] health_ignores_similar [OF assms] by auto

theorem dup_total_issues_excludes_similar_witness:
  "list_all known_severity
     (dup_counted (duplicate_findings
        ((only_hardcoded [])\<lparr>duplicate_findings := dup_with_similar\<rparr>)))
   \<and> (\<exists>s. dup_generate_summary dup_with_similar = Inr s
          \<and> s_total_issues s = 1 \<and> s_similar_models s = 2
          \<and> s_severity_counts s ''warning'' = Some 2
          \<and> s_severity_counts s ''info'' = Some 1)"
proof -
  have h: "list_all known_severity
     (dup_counted (duplicate_findings
        ((only_hardcoded [])\<lparr>duplicate_findings := dup_with_similar\<rparr>)))"
    by (simp add: dup_counted_def dup_with_similar_def no_dup_findings_def known_severity_def
        get_default_def)
  from dup_total_issues_excludes_similar [OF h] show ?thesis
    using h
    by (auto simp: dup_counted_def dup_with_similar_def no_dup_findings_def get_default_def
        numeral_2_eq_2)
qed




lemma store_results_state: "state (fst (store_results H now sid rp (sc, store))) = state sc"
  by (simp add: store_results_def Let_def split: prod.splits)













section \<open>Properties of the code scanner\<close>

lemma scan_loop_filter:
  "scan_loop base mf files res = foldl (scan_file base) res (filter (selects base mf) files)"
  by (induction files arbitrary: res) (simp_all add: selects_def)

lemma scan_file_lists:
  "sr_models (scan_file base res f) = sr_models res @ file_models f"
  "sr_functions (scan_file base res f) = sr_functions res @ file_functions f"
  "sr_imports (scan_file base res f) = sr_imports res @ file_imports base f"
  "sr_errors (scan_file base res f) = sr_errors res @ file_errors base f"
  "sr_files_scanned (scan_file base res f)
     = sr_files_scanned res + (if is_parsed f then 1 else 0)"
  by (simp_all add: scan_file_def file_models_def file_functions_def file_imports_def
      file_errors_def is_parsed_def Let_def split: parse_outcome.splits)

lemma foldl_scan_file:
  "sr_models (foldl (scan_file base) res fs) = sr_models res @ concat (map file_models fs)"
  "sr_functions (foldl (scan_file base) res fs)
     = sr_functions res @ concat (map file_functions fs)"
  "sr_imports (foldl (scan_file base) res fs)
     = sr_imports res @ concat (map (file_imports base) fs)"
  "sr_errors (foldl (scan_file base) res fs)
     = sr_errors res @ concat (map (file_errors base) fs)"
  "sr_files_scanned (foldl (scan_file base) res fs)
     = sr_files_scanned res + length (filter is_parsed fs)"
  by (induction fs arbitrary: res) (simp_all add: scan_file_lists)

lemma parsed_no_errors: "list_all is_parsed fs \<Longrightarrow> concat (map (file_errors base) fs) = []"
  by (induction fs) (auto simp: file_errors_def is_parsed_def split: parse_outcome.splits)

lemma parsed_all: "list_all is_parsed fs \<Longrightarrow> filter is_parsed fs = fs"
  by (induction fs) auto

lemma scan_lists:
  "sr_models (scan base mf files) = concat (map file_models (filter (selects base mf) files))"
  "sr_functions (scan base mf files)
     = concat (map file_functions (filter (selects base mf) files))"
  "sr_imports (scan base mf files)
     = concat (map (file_imports base) (filter (selects base mf) files))"
  "sr_errors (scan base mf files)
     = concat (map (file_errors base) (filter (selects base mf) files))"
  "sr_files_scanned (scan base mf files)
     = length (filter is_parsed (filter (selects base mf) files))"
  by (simp_all add: scan_def analyze_init_files_def scan_loop_filter foldl_scan_file
      empty_results_def)

text \<open>
  C6. Among the files that the scanner visits, one raises \<open>SyntaxError\<close> and the
  others parse. Then the result of \<open>scan\<close>, which is a value and never an exception,
  has exactly one entry in \<open>errors\<close>, with the path of the broken file, its message and
  its line; and its models, functions and imports are those of all the other files, in
  the order of the scan, with as many files counted as scanned.
\<close>

theorem syntax_error_keeps_other_files:
  assumes "filter (selects base mf) files = pre @ bad # post"
    and "outcome bad = SyntaxError msg lineno"
    and "list_all is_parsed (pre @ post)"
  shows "sr_errors (scan base mf files)
           = [\<lparr>e_file = str_path base (rel_parts bad), e_error = ''Syntax error: '' @ msg,
               e_line = Some lineno\<rparr>]
         \<and> sr_models (scan base mf files) = concat (map file_models (pre @ post))
         \<and> sr_functions (scan base mf files) = concat (map file_functions (pre @ post))
         \<and> sr_imports (scan base mf files) = concat (map (file_imports base) (pre @ post))
         \<and> sr_files_scanned (scan base mf files) = length (pre @ post)"
proof -
  have p: "list_all is_parsed pre" "list_all is_parsed post"
    using assms(3) by simp_all
  have b: "file_errors base bad
             = [\<lparr>e_file = str_path base (rel_parts bad), e_error = ''Syntax error: '' @ msg,
                 e_line = Some lineno\<rparr>]"
    "file_models bad = []" "file_functions bad = []" "file_imports base bad = []"
    "\<not> is_parsed bad"
    using assms(2)
    by (simp_all add: file_errors_def file_models_def file_functions_def file_imports_def
        is_parsed_def)
  show ?thesis
    by (simp add: scan_lists assms(1) b parsed_no_errors [OF p(1)] parsed_no_errors [OF p(2)]
        parsed_all [OF p(1)] parsed_all [OF p(2)])
qed

lemma xml_scan_loop_filter:
  "xml_scan_loop body base mf files res
     = foldl body res (filter (xml_selects base mf) files)"
  by (induction files arbitrary: res) (simp_all add: xml_selects_def xml_skipped_def)

lemma asset_scan_loop_filter:
  "asset_scan_loop js_body css_body base mf files res
     = foldl (asset_step js_body css_body) res (filter (asset_selects base mf) files)"
  by (induction files arbitrary: res)
     (simp_all add: asset_selects_def scan_asset_file_def asset_step_def)

lemma manifests_ignore_filter:
  "scan_manifests (\<lambda>res f. res @ [f])
     [[''ai_sam'', ''__manifest__.py''], [''ai_sam_base'', ''__manifest__.py'']] []
   = [[''ai_sam'', ''__manifest__.py''], [''ai_sam_base'', ''__manifest__.py'']]"
  by (simp add: scan_manifests_def)

lemma xml_eval:
  "xml_selects ''/srv/addons'' [''ai_sam''] [''ai_sam'', ''views'', ''task.xml'']"
  "\<not> xml_skipped (str_path ''/srv/addons'' [''ai_sam'', ''views'', ''task.xml''])"
  "\<not> xml_selects ''/srv/addons'' [''ai_sam''] [''ai_sam_base'', ''views'', ''user.xml'']"
  by (simp_all add: xml_selects_def xml_skipped_def filtered_out_def top_module_def
      str_path_def)

lemma asset_eval:
  "asset_selects ''/srv/addons'' [''ai_sam''] [''ai_sam'', ''static'', ''app.js'']"
  "\<not> asset_skipped (str_path ''/srv/addons'' [''ai_sam'', ''static'', ''app.js''])"
  "\<not> asset_selects ''/srv/addons'' [''ai_sam''] [''ai_sam_base'', ''static'', ''app.js'']"
  "is_js [''ai_sam'', ''static'', ''app.js'']"
  by (simp_all add: asset_selects_def asset_skipped_def filtered_out_def top_module_def
      str_path_def is_js_def path_suffix_def Let_def)

text \<open>
  C5, as the code has it. With a module filter, the Python scanner, the XML scanner and
  the JS and CSS scans of the asset scanner each handle a file only if the first part of
  its path below the root is equal to a name of the filter, so no file of the module
  \<open>ai_sam_base\<close> is handled under the filter \<open>['ai_sam']\<close>; such a file is handled
  unless its path contains a word of the scanner's skip list (\<open>__pycache__\<close>, \<open>venv\<close>,
  \<open>.git\<close> for Python; \<open>.git\<close>, \<open>node_modules\<close> for XML; \<open>node_modules\<close>, \<open>.git\<close>,
  \<open>__pycache__\<close>, \<open>venv\<close> for JS and CSS); and the loop of each scanner handles the
  files so selected, and no others.
\<close>

theorem module_filter_exact:
  assumes "mf \<noteq> []"
  shows "(selects base mf f \<longrightarrow> top_module (rel_parts f) \<in> set mf)
         \<and> (top_module (rel_parts f) \<in> set mf
              \<and> \<not> skipped_dir (str_path base (rel_parts f)) \<longrightarrow> selects base mf f)
         \<and> (top_module (rel_parts f) = ''ai_sam_base'' \<longrightarrow> \<not> selects base [''ai_sam''] f)
         \<and> scan_loop base mf files res
             = foldl (scan_file base) res (filter (selects base mf) files)
         \<and> (xml_selects base mf p \<longrightarrow> top_module p \<in> set mf)
         \<and> (top_module p \<in> set mf \<and> \<not> xml_skipped (str_path base p)
              \<longrightarrow> xml_selects base mf p)
         \<and> (top_module p = ''ai_sam_base'' \<longrightarrow> \<not> xml_selects base [''ai_sam''] p)
         \<and> xml_scan_loop xml_body base mf ps xres
             = foldl xml_body xres (filter (xml_selects base mf) ps)
         \<and> (asset_selects base mf p \<longrightarrow> top_module p \<in> set mf)
         \<and> (top_module p \<in> set mf \<and> \<not> asset_skipped (str_path base p)
              \<longrightarrow> asset_selects base mf p)
         \<and> (top_module p = ''ai_sam_base'' \<longrightarrow> \<not> asset_selects base [''ai_sam''] p)
         \<and> asset_scan_loop js_body css_body base mf ps ares
             = foldl (asset_step js_body css_body) ares (filter (asset_selects base mf) ps)"
  using assms
  by (auto simp: selects_def filtered_out_def scan_loop_filter xml_selects_def
      asset_selects_def xml_scan_loop_filter asset_scan_loop_filter)

text \<open>
  Against C5 as stated: the first part of \<open>ai_sam/__pycache__/m.py\<close> is a name of the
  filter, and the file is not scanned.
\<close>

theorem cache_file_not_scanned:
  "top_module (rel_parts cache_file) \<in> set [''ai_sam'']
   \<and> \<not> selects ''/srv/addons'' [''ai_sam''] cache_file"
  by (simp add: cache_file_def top_module_def selects_def filtered_out_def skipped_dir_def
      str_path_def)

lemma sel_good: "selects ''/srv/addons'' [''ai_sam''] good_file"
  by (simp add: good_file_def selects_def filtered_out_def skipped_dir_def str_path_def
      top_module_def)

lemma sel_broken: "selects ''/srv/addons'' [''ai_sam''] broken_file"
  by (simp add: broken_file_def selects_def filtered_out_def skipped_dir_def str_path_def
      top_module_def)

lemma sel_sibling: "\<not> selects ''/srv/addons'' [''ai_sam''] sibling_file"
  by (simp add: sibling_file_def selects_def filtered_out_def top_module_def)

theorem module_filter_exact_witness:
  "[''ai_sam''] \<noteq> ([] :: string list)
   \<and> top_module (rel_parts sibling_file) = ''ai_sam_base''
   \<and> \<not> selects ''/srv/addons'' [''ai_sam''] sibling_file
   \<and> top_module (rel_parts good_file) \<in> set [''ai_sam'']
   \<and> \<not> skipped_dir (str_path ''/srv/addons'' (rel_parts good_file))
   \<and> selects ''/srv/addons'' [''ai_sam''] good_file
   \<and> \<not> xml_selects ''/srv/addons'' [''ai_sam''] [''ai_sam_base'', ''views'', ''user.xml'']
   \<and> xml_selects ''/srv/addons'' [''ai_sam''] [''ai_sam'', ''views'', ''task.xml'']
   \<and> \<not> asset_selects ''/srv/addons'' [''ai_sam''] [''ai_sam_base'', ''static'', ''app.js'']
   \<and> asset_selects ''/srv/addons'' [''ai_sam''] [''ai_sam'', ''static'', ''app.js'']"
proof -
  have n: "[''ai_sam''] \<noteq> ([] :: string list)" by simp
  have t: "top_module (rel_parts sibling_file) = ''ai_sam_base''"
    by (simp add: sibling_file_def top_module_def)
  have g: "top_module (rel_parts good_file) \<in> set [''ai_sam'']"
    by (simp add: good_file_def top_module_def)
  have k: "\<not> skipped_dir (str_path ''/srv/addons'' (rel_parts good_file))"
    by (simp add: good_file_def skipped_dir_def str_path_def)
  have tx: "top_module [''ai_sam_base'', ''views'', ''user.xml''] = ''ai_sam_base''"
           "top_module [''ai_sam_base'', ''static'', ''app.js''] = ''ai_sam_base''"
           "top_module [''ai_sam'', ''views'', ''task.xml''] \<in> set [''ai_sam'']"
           "top_module [''ai_sam'', ''static'', ''app.js''] \<in> set [''ai_sam'']"
    by (simp_all add: top_module_def)
  note i1 = module_filter_exact [OF n, where base = "''/srv/addons''" and f = sibling_file
      and files = "[]" and res = empty_results
      and p = "[''ai_sam_base'', ''views'', ''user.xml'']"
      and xml_body = "\<lambda>(r::nat) f. r" and ps = "[]" and xres = 0
      and js_body = "\<lambda>(r::nat) f. r" and css_body = "\<lambda>(r::nat) f. r" and ares = 0]
  note i2 = module_filter_exact [OF n, where base = "''/srv/addons''" and f = good_file
      and files = "[]" and res = empty_results
      and p = "[''ai_sam'', ''views'', ''task.xml'']"
      and xml_body = "\<lambda>(r::nat) f. r" and ps = "[]" and xres = 0
      and js_body = "\<lambda>(r::nat) f. r" and css_body = "\<lambda>(r::nat) f. r" and ares = 0]
  note i3 = module_filter_exact [OF n, where base = "''/srv/addons''" and f = good_file
      and files = "[]" and res = empty_results
      and p = "[''ai_sam_base'', ''static'', ''app.js'']"
      and xml_body = "\<lambda>(r::nat) f. r" and ps = "[]" and xres = 0
      and js_body = "\<lambda>(r::nat) f. r" and css_body = "\<lambda>(r::nat) f. r" and ares = 0]
  note i4 = module_filter_exact [OF n, where base = "''/srv/addons''" and f = good_file
      and files = "[]" and res = empty_results
      and p = "[''ai_sam'', ''static'', ''app.js'']"
      and xml_body = "\<lambda>(r::nat) f. r" and ps = "[]" and xres = 0
      and js_body = "\<lambda>(r::nat) f. r" and css_body = "\<lambda>(r::nat) f. r" and ares = 0]
  have a: "\<not> selects ''/srv/addons'' [''ai_sam''] sibling_file"
    using i1 t by blast
  have b: "selects ''/srv/addons'' [''ai_sam''] good_file"
    using i2 g k by blast
  have c: "\<not> xml_selects ''/srv/addons'' [''ai_sam''] [''ai_sam_base'', ''views'', ''user.xml'']"
    using i1 tx(1) by blast
  have d: "xml_selects ''/srv/addons'' [''ai_sam''] [''ai_sam'', ''views'', ''task.xml'']"
    using i2 tx(3) xml_eval(2) by blast
  have e: "\<not> asset_selects ''/srv/addons'' [''ai_sam''] [''ai_sam_base'', ''static'', ''app.js'']"
    using i3 tx(2) by blast
  have f: "asset_selects ''/srv/addons'' [''ai_sam''] [''ai_sam'', ''static'', ''app.js'']"
    using i4 tx(4) asset_eval(2) by blast
  show ?thesis using n t g k a b c d e f by blast
qed

theorem syntax_error_keeps_other_files_witness:
  "filter (selects ''/srv/addons'' [''ai_sam'']) [good_file, sibling_file, broken_file, good_file]
     = [good_file] @ broken_file # [good_file]
   \<and> outcome broken_file = SyntaxError ''invalid syntax (broken.py, line 3)'' (Some 3)
   \<and> list_all is_parsed ([good_file] @ [good_file])
   \<and> sr_errors (scan ''/srv/addons'' [''ai_sam'']
                  [good_file, sibling_file, broken_file, good_file])
       = [\<lparr>e_file = ''/srv/addons/ai_sam/models/broken.py'',
           e_error = ''Syntax error: invalid syntax (broken.py, line 3)'',
           e_line = Some (Some 3)\<rparr>]
   \<and> sr_models (scan ''/srv/addons'' [''ai_sam'']
                  [good_file, sibling_file, broken_file, good_file])
       = [task_model\<lparr>m_relative_path := Some ''ai_sam/models/task.py''\<rparr>,
          task_model\<lparr>m_relative_path := Some ''ai_sam/models/task.py''\<rparr>]
   \<and> sr_files_scanned (scan ''/srv/addons'' [''ai_sam'']
                  [good_file, sibling_file, broken_file, good_file]) = 2"
proof -
  let ?files = "[good_file, sibling_file, broken_file, good_file]"
  have h1: "filter (selects ''/srv/addons'' [''ai_sam'']) ?files
            = [good_file] @ broken_file # [good_file]"
    by (simp add: sel_good sel_broken sel_sibling)
  have h2: "outcome broken_file = SyntaxError ''invalid syntax (broken.py, line 3)'' (Some 3)"
    by (simp add: broken_file_def)
  have h3: "list_all is_parsed ([good_file] @ [good_file])"
    by (simp add: is_parsed_def good_file_def)
  have r: "str_path ''/srv/addons'' (rel_parts broken_file)
             = ''/srv/addons/ai_sam/models/broken.py''"
    by (simp add: str_path_def broken_file_def)
  have m: "file_models good_file
             = [task_model\<lparr>m_relative_path := Some ''ai_sam/models/task.py''\<rparr>]"
    by (simp add: file_models_def good_file_def)
  note t = syntax_error_keeps_other_files [OF h1 h2 h3]
  have e: "sr_errors (scan ''/srv/addons'' [''ai_sam''] ?files)
       = [\<lparr>e_file = ''/srv/addons/ai_sam/models/broken.py'',
           e_error = ''Syntax error: invalid syntax (broken.py, line 3)'',
           e_line = Some (Some 3)\<rparr>]"
    using t by (simp only: r) simp
  have mo: "sr_models (scan ''/srv/addons'' [''ai_sam''] ?files)
       = [task_model\<lparr>m_relative_path := Some ''ai_sam/models/task.py''\<rparr>,
          task_model\<lparr>m_relative_path := Some ''ai_sam/models/task.py''\<rparr>]"
    using t by (simp add: m)
  have n: "sr_files_scanned (scan ''/srv/addons'' [''ai_sam''] ?files) = 2"
    using t by simp
  show ?thesis using h1 h2 h3 e mo n by blast
qed

section \<open>Properties of the rename detection\<close>

lemma ends_ci_append: "ends_ci t (n @ t)"
  by (simp add: ends_ci_def same_ci_def)

lemma old_search: "re_search (Suffix ''_old'') (n @ ''_old'')"
  by (simp add: ends_ci_append)

lemma old_sub: "re_sub (Suffix ''_old'') (n @ ''_old'') = n"
  using ends_ci_append [of "''_old''" n] by simp

lemma check_name_old:
  "check_name RENAME_PATTERNS names ct (n @ ''_old'')
     = (if n \<in> set names then [old_with_original ct n] else [old_without_original ct n])"
  using old_search [of n] old_sub [of n]
  by (simp add: RENAME_PATTERNS_def Let_def old_with_original_def old_without_original_def
      del: re_search.simps re_sub.simps)

lemma check_renames_member:
  "name \<in> set names \<Longrightarrow> name \<noteq> [] \<Longrightarrow>
   set (check_name RENAME_PATTERNS names ct name) \<subseteq> set (check_renames names ct)"
  by (auto simp: check_renames_def)

lemma foo_eval:
  "check_renames [''Foo'', ''Foo_old''] ''model'' = [old_with_original ''model'' ''Foo'']"
  by code_simp

lemma bar_eval:
  "check_renames [''Bar_old''] ''model'' = [old_without_original ''model'' ''Bar'']"
  by code_simp

text \<open>
  C8. For a name list that holds \<open>n_old\<close>, the detector reports a finding for it with
  the pattern \<open>_old$\<close>: if the list also holds \<open>n\<close>, the finding has
  \<open>renamed = n_old\<close>, \<open>original = n\<close> and severity \<open>warning\<close>; if the list does not
  hold \<open>n\<close>, the finding has \<open>original = None\<close> and severity \<open>info\<close>.
\<close>

theorem rename_detection:
  assumes "n @ ''_old'' \<in> set names"
  shows "(n \<in> set names \<longrightarrow>
            old_with_original ct n \<in> set (check_renames names ct)
            \<and> rn_renamed (old_with_original ct n) = n @ ''_old''
            \<and> rn_original (old_with_original ct n) = Some n
            \<and> rn_severity (old_with_original ct n) = ''warning'')
         \<and> (n \<notin> set names \<longrightarrow>
            old_without_original ct n \<in> set (check_renames names ct)
            \<and> rn_renamed (old_without_original ct n) = n @ ''_old''
            \<and> rn_original (old_without_original ct n) = None
            \<and> rn_severity (old_without_original ct n) = ''info'')"
  using check_renames_member [OF assms, of ct]
  by (auto simp: check_name_old old_with_original_def old_without_original_def)

theorem rename_detection_witness:
  "''Foo'' @ ''_old'' \<in> set [''Foo'', ''Foo_old'']
   \<and> ''Foo'' \<in> set [''Foo'', ''Foo_old'']
   \<and> old_with_original ''model'' ''Foo'' \<in> set (check_renames [''Foo'', ''Foo_old''] ''model'')
   \<and> check_renames [''Foo'', ''Foo_old''] ''model'' = [old_with_original ''model'' ''Foo'']
   \<and> ''Bar'' @ ''_old'' \<in> set [''Bar_old'']
   \<and> ''Bar'' \<notin> set [''Bar_old'']
   \<and> old_without_original ''model'' ''Bar'' \<in> set (check_renames [''Bar_old''] ''model'')
   \<and> check_renames [''Bar_old''] ''model'' = [old_without_original ''model'' ''Bar'']"
proof -
  have f1: "''Foo'' @ ''_old'' \<in> set [''Foo'', ''Foo_old'']" by simp
  have f2: "''Foo'' \<in> set [''Foo'', ''Foo_old'']" by simp
  have b1: "''Bar'' @ ''_old'' \<in> set [''Bar_old'']" by simp
  have b2: "''Bar'' \<notin> set [''Bar_old'']" by simp
  have f3: "old_with_original ''model'' ''Foo''
              \<in> set (check_renames [''Foo'', ''Foo_old''] ''model'')"
    using rename_detection [OF f1, of "''model''"] f2 by blast
  have b3: "old_without_original ''model'' ''Bar''
              \<in> set (check_renames [''Bar_old''] ''model'')"
    using rename_detection [OF b1, of "''model''"] b2 by blast
  show ?thesis using f1 f2 f3 b1 b2 b3 foo_eval bar_eval by blast
qed

section \<open>Properties of the similar-model detection\<close>



lemma finding_key_pair [simp]:
  "finding_key (similar_pair a b) = pair_key (me_name a) (me_name b)"
  by (simp add: finding_key_def similar_pair_def)





















end
